theory Spec2Isabelle
  imports Main "HOL-Library.Sublist"
begin

section \<open>The agent dispatcher \<^verbatim>\<open>scripts/agent.py\<close>\<close>

text \<open>
  The script parses a command line, loads a configuration file and a prompt template,
  composes a prompt and hands it to the external \<^verbatim>\<open>claude\<close> executable, once
  (\<^verbatim>\<open>implement\<close>, \<^verbatim>\<open>review\<close>, \<^verbatim>\<open>security-review\<close>) or once per issue
  (\<^verbatim>\<open>batch\<close>).

  Everything the script reads from outside is a field of the record \<open>env\<close>; everything
  it does to the outside (printing, starting and waiting for processes) is an event of
  the trace it returns, in the order of the calls. A Python \<^verbatim>\<open>str\<close> is a
  \<^typ>\<open>string\<close>; a \<^typ>\<open>char\<close> stands for a code point below 256. A Python
  \<^verbatim>\<open>int\<close> is an \<^typ>\<open>int\<close>.
\<close>

subsection \<open>Python's string methods\<close>

text \<open>
  The exceptions a run can meet: the three the script's own expressions raise,
  \<^verbatim>\<open>OSError\<close> for a \<^verbatim>\<open>git\<close> that cannot be started or a configuration file
  that cannot be opened, and \<^verbatim>\<open>YAMLError\<close> for a configuration file that is not a
  YAML document.
\<close>

datatype exn = ValueError | IndexError | AttributeError | OSError | YAMLError

text \<open>
  \<^verbatim>\<open>str.isspace\<close> on one code point below 256: TAB, LF, VT, FF, CR, the four
  separators FS, GS, RS, US, the space, NEL and the no-break space.
\<close>

definition py_isspace :: "char \<Rightarrow> bool" where
  "py_isspace c =
     (let n = of_char c :: nat
      in (9 \<le> n \<and> n \<le> 13) \<or> (28 \<le> n \<and> n \<le> 32) \<or> n = 133 \<or> n = 160)"

text \<open>\<^verbatim>\<open>s.strip()\<close>: whitespace removed at both ends.\<close>

definition py_strip :: "string \<Rightarrow> string" where
  "py_strip s = rev (dropWhile py_isspace (rev (dropWhile py_isspace s)))"

text \<open>\<^verbatim>\<open>s.startswith(p)\<close> is \<^const>\<open>prefix\<close>; \<^verbatim>\<open>sub in s\<close> looks for \<open>sub\<close> at every position.\<close>

fun py_in :: "string \<Rightarrow> string \<Rightarrow> bool" where
  "py_in sub [] = (sub = [])"
| "py_in sub (c # cs) = (prefix sub (c # cs) \<or> py_in sub cs)"

text \<open>
  \<^verbatim>\<open>s.split(sep)\<close>: the fields between the occurrences of \<open>sep\<close>, found from the
  left and not overlapping. The accumulator holds the current field, reversed. Python
  raises \<^verbatim>\<open>ValueError\<close> on an empty separator.
\<close>

function split_from :: "string \<Rightarrow> string \<Rightarrow> string \<Rightarrow> string list" where
  "split_from sep acc [] = [rev acc]"
| "split_from sep acc (c # cs) =
     (if sep \<noteq> [] \<and> prefix sep (c # cs)
      then rev acc # split_from sep [] (drop (length sep) (c # cs))
      else split_from sep (c # acc) cs)"
  by pat_completeness auto
termination
  by (relation "measure (\<lambda>(sep, acc, s). length s)") (auto simp: neq_Nil_conv)

definition py_split :: "string \<Rightarrow> string \<Rightarrow> exn + string list" where
  "py_split sep s = (if sep = [] then Inl ValueError else Inr (split_from sep [] s))"

text \<open>
  \<^verbatim>\<open>s.replace(old, new)\<close>: every occurrence of \<open>old\<close>, from the left and not
  overlapping, becomes \<open>new\<close>. An empty \<open>old\<close> matches before every character and
  at the end.
\<close>

function replace_from :: "string \<Rightarrow> string \<Rightarrow> string \<Rightarrow> string" where
  "replace_from old new [] = []"
| "replace_from old new (c # cs) =
     (if old \<noteq> [] \<and> prefix old (c # cs)
      then new @ replace_from old new (drop (length old) (c # cs))
      else c # replace_from old new cs)"
  by pat_completeness auto
termination
  by (relation "measure (\<lambda>(old, new, s). length s)") (auto simp: neq_Nil_conv)

definition py_replace :: "string \<Rightarrow> string \<Rightarrow> string \<Rightarrow> string" where
  "py_replace old new s =
     (if old = [] then new @ concat (map (\<lambda>c. c # new) s) else replace_from old new s)"

text \<open>\<^verbatim>\<open>xs[i]\<close> for \<open>i \<ge> 0\<close>: \<^verbatim>\<open>IndexError\<close> out of range.\<close>

definition py_index :: "'a list \<Rightarrow> nat \<Rightarrow> exn + 'a" where
  "py_index xs i = (if i < length xs then Inr (xs ! i) else Inl IndexError)"

subsection \<open>Python's \<^verbatim>\<open>int(s)\<close> and \<^verbatim>\<open>str(n)\<close>\<close>

definition is_digit :: "char \<Rightarrow> bool" where
  "is_digit c = (48 \<le> (of_char c :: nat) \<and> (of_char c :: nat) \<le> 57)"

definition digit_val :: "char \<Rightarrow> nat" where
  "digit_val c = of_char c - 48"

definition digits_value :: "string \<Rightarrow> nat" where
  "digits_value ds = foldl (\<lambda>a c. 10 * a + digit_val c) 0 ds"

text \<open>
  The whitespace \<^verbatim>\<open>int\<close> skips around the number: TAB, LF, VT, FF, CR and the
  space, and the non-ASCII whitespace NEL and no-break space (the separators FS to US
  count for \<^verbatim>\<open>strip\<close> but not for \<^verbatim>\<open>int\<close>).
\<close>

definition int_space :: "char \<Rightarrow> bool" where
  "int_space c =
     (let n = of_char c :: nat in (9 \<le> n \<and> n \<le> 13) \<or> n = 32 \<or> n = 133 \<or> n = 160)"

text \<open>
  The digits of a decimal literal: at least one digit, single underscores allowed
  between digits only.
\<close>

fun int_digits_ok :: "string \<Rightarrow> bool" where
  "int_digits_ok [] = False"
| "int_digits_ok [c] = is_digit c"
| "int_digits_ok (c # d # cs) =
     (is_digit c \<and> (if d = CHR ''_'' then int_digits_ok cs else int_digits_ok (d # cs)))"

text \<open>
  CPython refuses to convert a decimal string of more digits than
  \<^verbatim>\<open>sys.get_int_max_str_digits()\<close>; the script leaves the default, 4300, in place.
  A value \<^verbatim>\<open>int\<close> returned therefore has at most 4300 digits, and \<^verbatim>\<open>str\<close> of
  it, which has the same limit, cannot fail.
\<close>

definition int_max_str_digits :: nat where
  "int_max_str_digits = 4300"

definition py_int :: "string \<Rightarrow> exn + int" where
  "py_int s =
     (let t = dropWhile int_space s;
          neg = (t \<noteq> [] \<and> hd t = CHR ''-'');
          u = (if t \<noteq> [] \<and> (hd t = CHR ''-'' \<or> hd t = CHR ''+'') then tl t else t);
          body = rev (dropWhile int_space (rev u));
          ds = filter is_digit body
      in if int_digits_ok body \<and> length ds \<le> int_max_str_digits
         then Inr (if neg then - int (digits_value ds) else int (digits_value ds))
         else Inl ValueError)"

text \<open>The decimal digit of a number below ten.\<close>

definition digit_char :: "nat \<Rightarrow> char" where
  "digit_char n = ''0123456789'' ! n"

fun nat_digits :: "nat \<Rightarrow> string" where
  "nat_digits n =
     (if n < 10 then [digit_char n] else nat_digits (n div 10) @ [digit_char (n mod 10)])"

declare nat_digits.simps [simp del]

definition py_str :: "int \<Rightarrow> string" where
  "py_str i = (if i < 0 then CHR ''-'' # nat_digits (nat (- i)) else nat_digits (nat i))"

subsection \<open>The outside world\<close>

text \<open>
  What a run reads. \<open>config_file\<close> is \<open>None\<close> when \<^verbatim>\<open>CONFIG_PATH\<close> does not
  exist; when it exists, it is what \<^verbatim>\<open>open\<close> and \<^verbatim>\<open>yaml.safe_load\<close> make of it:
  the exception one of them raises, or the value loaded. \<open>prompt_files name\<close> is
  \<open>None\<close> when \<^verbatim>\<open>PROMPTS_DIR / f"{name}.md"\<close> does not exist, else its text.
  \<open>config_path\<close> and \<open>prompt_path name\<close> are these two paths as \<^verbatim>\<open>print\<close> shows
  them (they depend on where the script is installed). \<open>git_remote\<close> is the outcome
  of \<^verbatim>\<open>git remote get-url origin\<close>: its standard output, or the exception
  \<^verbatim>\<open>subprocess.run\<close> raises. \<open>returncode k cmd\<close> is the return code
  \<^verbatim>\<open>subprocess\<close> reports for the \<open>k\<close>-th agent process the run starts (counting
  from 0), started with the command line \<open>cmd\<close>: the exit code of a process that
  exits, \<open>- N\<close> for a process killed by the signal \<open>N\<close>.

  Two failures of the operating system are left out: a prompt file that exists can be
  read, and the \<^verbatim>\<open>claude\<close> executable can be started. Every process is started in
  the directory \<^verbatim>\<open>SCRIPT_DIR\<close>, which the trace does not repeat.
\<close>

record 'cfg env =
  config_file :: "(exn + 'cfg) option"
  config_path :: string
  prompt_files :: "string \<Rightarrow> string option"
  prompt_path :: "string \<Rightarrow> string"
  git_remote :: "exn + string"
  returncode :: "nat \<Rightarrow> string list \<Rightarrow> int"

text \<open>
  What a run does, as a trace of calls: \<^verbatim>\<open>print\<close>, \<^verbatim>\<open>parser.print_help\<close>
  (the help of the program), the help of the subparser of a subcommand, the usage
  message of a rejected command line, \<^verbatim>\<open>subprocess.run\<close> (start a process and wait
  for it), \<^verbatim>\<open>subprocess.Popen\<close> (start the \<open>k\<close>-th batch process) and
  \<^verbatim>\<open>proc.wait\<close> on the \<open>k\<close>-th batch process.
\<close>

datatype event =
    Print string
  | PrintHelp
  | PrintSubHelp string
  | UsageError
  | Run "string list"
  | Popen nat "string list"
  | Wait nat

text \<open>
  A run of a function ends by returning a value or it is aborted, by \<^verbatim>\<open>sys.exit\<close> or
  by an exception nobody catches. \<open>SysExit n\<close> is the call \<^verbatim>\<open>sys.exit(n)\<close>.
\<close>

datatype abort = SysExit int | Uncaught exn

text \<open>
  The exit status of the program, as its parent process sees it (POSIX): of the
  number passed to \<^verbatim>\<open>sys.exit\<close> the low eight bits arrive, and an exception nobody
  catches ends the interpreter with status 1.
\<close>

definition exit_status :: "abort \<Rightarrow> int" where
  "exit_status stop = (case stop of SysExit n \<Rightarrow> n mod 256 | Uncaught e \<Rightarrow> 1)"

type_synonym 'a run = "(abort + 'a) \<times> event list"

definition nl :: string where
  "nl = [CHR 0x0A]"

subsection \<open>Argument parsing (lines 164 to 206)\<close>

text \<open>
  The namespace \<^verbatim>\<open>parse_args\<close> returns. An attribute a subparser does not define is
  absent (\<open>None\<close>): reading it raises \<^verbatim>\<open>AttributeError\<close>.
\<close>

record args =
  provider :: string
  print_only :: bool
  command :: string
  issue :: "int option"
  pr :: "int option"
  issues :: "string option"

text \<open>
  A command line, as argparse reads it when its words are well formed: the value of
  \<^verbatim>\<open>--provider\<close> if the flag is there, whether \<^verbatim>\<open>--print-only\<close> is there, whether
  the parser comes to a \<^verbatim>\<open>-h\<close> or \<^verbatim>\<open>--help\<close> before the subcommand, the subcommand
  word if there is one, whether the subparser comes to a \<^verbatim>\<open>-h\<close> or \<^verbatim>\<open>--help\<close>
  after it, and the values given after the subcommand to \<^verbatim>\<open>--issue\<close>/\<^verbatim>\<open>-i\<close>,
  \<^verbatim>\<open>--pr\<close>/\<^verbatim>\<open>-p\<close> and \<^verbatim>\<open>--issues\<close> (the last value when an option is
  repeated). How argparse reads the words themselves (abbreviated flags,
  \<^verbatim>\<open>--flag=value\<close>, a flag with its value missing) is not modelled.
\<close>

record invocation =
  opt_provider :: "string option"
  opt_print_only :: bool
  opt_help :: bool
  subcommand :: "string option"
  sub_help :: bool
  opt_issue :: "string option"
  opt_pr :: "string option"
  opt_issues :: "string option"

text \<open>argparse rejects a command line with a usage message and exit status 2.\<close>

definition usage_error :: "'a run" where
  "usage_error = (Inl (SysExit 2), [UsageError])"

text \<open>
  The parser of \<^verbatim>\<open>main\<close>: a \<^verbatim>\<open>-h\<close> prints the help and exits with 0;
  \<^verbatim>\<open>--provider\<close> defaults to \<^verbatim>\<open>claude-code\<close>; the subcommand is required and must
  be one of the four subparsers; each subparser has a \<^verbatim>\<open>-h\<close> of its own, requires
  its own option, converts it (\<^verbatim>\<open>type=int\<close> for \<^verbatim>\<open>--issue\<close> and \<^verbatim>\<open>--pr\<close>) and
  knows no other.
\<close>

definition parse_args :: "invocation \<Rightarrow> args run" where
  "parse_args cl =
     (let base = \<lparr>provider = (case opt_provider cl of None \<Rightarrow> ''claude-code'' | Some p \<Rightarrow> p),
                  print_only = opt_print_only cl, command = [],
                  issue = None, pr = None, issues = None\<rparr>
      in if opt_help cl then (Inl (SysExit 0), [PrintHelp])
         else
           (case subcommand cl of
              None \<Rightarrow> usage_error
            | Some c \<Rightarrow>
                if c \<noteq> ''implement'' \<and> c \<noteq> ''review'' \<and> c \<noteq> ''security-review''
                   \<and> c \<noteq> ''batch''
                then usage_error
                else if sub_help cl then (Inl (SysExit 0), [PrintSubHelp c])
                else if c = ''implement'' then
                  (case (opt_issue cl, opt_pr cl, opt_issues cl) of
                     (Some s, None, None) \<Rightarrow>
                       (case py_int s of
                          Inl e \<Rightarrow> usage_error
                        | Inr n \<Rightarrow> (Inr (base\<lparr>command := c, issue := Some n\<rparr>), []))
                   | _ \<Rightarrow> usage_error)
                else if c = ''review'' \<or> c = ''security-review'' then
                  (case (opt_issue cl, opt_pr cl, opt_issues cl) of
                     (None, Some s, None) \<Rightarrow>
                       (case py_int s of
                          Inl e \<Rightarrow> usage_error
                        | Inr n \<Rightarrow> (Inr (base\<lparr>command := c, pr := Some n\<rparr>), []))
                   | _ \<Rightarrow> usage_error)
                else
                  (case (opt_issue cl, opt_pr cl, opt_issues cl) of
                     (None, None, Some s) \<Rightarrow>
                       (Inr (base\<lparr>command := c, issues := Some s\<rparr>), [])
                   | _ \<Rightarrow> usage_error)))"

subsection \<open>Loading the configuration and the prompts (lines 28 to 43)\<close>

text \<open>
  \<^verbatim>\<open>load_config\<close> looks whether the file exists and exits when it does not; nothing
  catches what \<^verbatim>\<open>open\<close> or \<^verbatim>\<open>yaml.safe_load\<close> raises on a file that exists.
\<close>

definition load_config :: "'cfg env \<Rightarrow> 'cfg run" where
  "load_config env =
     (case config_file env of
        None \<Rightarrow> (Inl (SysExit 1), [Print (''Config not found at '' @ config_path env)])
      | Some (Inl e) \<Rightarrow> (Inl (Uncaught e), [])
      | Some (Inr c) \<Rightarrow> (Inr c, []))"

definition load_prompt :: "'cfg env \<Rightarrow> string \<Rightarrow> string run" where
  "load_prompt env name =
     (case prompt_files env name of
        None \<Rightarrow> (Inl (SysExit 1), [Print (''Prompt not found: '' @ prompt_path env name)])
      | Some text \<Rightarrow> (Inr text, []))"

subsection \<open>Running the agent (lines 46 to 57)\<close>

definition run_claude_code :: "'cfg env \<Rightarrow> string \<Rightarrow> bool \<Rightarrow> int \<times> event list" where
  "run_claude_code env prompt print_only_flag =
     (let cmd = [''claude''] @ (if print_only_flag then [''--print''] else []) @ [prompt]
      in (returncode env 0 cmd,
          [Print (''Running: claude '' @ (if print_only_flag then ''--print '' else [])
                  @ ''<prompt>''),
           Print (replicate 50 (CHR ''-'')),
           Run cmd]))"

subsection \<open>The repository's owner and name (lines 60 to 79)\<close>

definition git_cmd :: "string list" where
  "git_cmd = [''git'', ''remote'', ''get-url'', ''origin'']"

text \<open>
  The body of the \<^verbatim>\<open>try\<close>, on the outcome of the \<^verbatim>\<open>git\<close> call: \<open>Inl e\<close> when
  it raises \<open>e\<close>, \<open>Inr None\<close> when it falls out of the \<^verbatim>\<open>if\<close>, \<open>Inr (Some
  (owner, repo))\<close> when it returns.
\<close>

definition repo_info_try :: "exn + string \<Rightarrow> exn + (string \<times> string) option" where
  "repo_info_try git =
     (case git of
        Inl e \<Rightarrow> Inl e
      | Inr stdout \<Rightarrow>
          (let url = py_strip stdout
           in if py_in ''github.com'' url then
                (case (if prefix ''git@'' url
                       then (case py_split '':'' url of
                               Inl e \<Rightarrow> Inl e | Inr parts \<Rightarrow> py_index parts 1)
                       else (case py_split ''github.com/'' url of
                               Inl e \<Rightarrow> Inl e | Inr parts \<Rightarrow> py_index parts 1)) of
                   Inl e \<Rightarrow> Inl e
                 | Inr path \<Rightarrow>
                     (case py_split ''/'' (py_replace ''.git'' [] path) of
                        Inl e \<Rightarrow> Inl e
                      | Inr [owner, repo] \<Rightarrow> Inr (Some (owner, repo))
                      | Inr _ \<Rightarrow> Inl ValueError))
              else Inr None))"

text \<open>\<^verbatim>\<open>except Exception: pass\<close>, then \<^verbatim>\<open>return None, None\<close>.\<close>

definition get_repo_info :: "'cfg env \<Rightarrow> (string option \<times> string option) \<times> event list" where
  "get_repo_info env =
     ((case repo_info_try (git_remote env) of
         Inr (Some (owner, repo)) \<Rightarrow> (Some owner, Some repo)
       | _ \<Rightarrow> (None, None)),
      [Run git_cmd])"

subsection \<open>The single-task handlers (lines 82 to 136)\<close>

text \<open>The truth value of \<^verbatim>\<open>owner\<close> in \<^verbatim>\<open>if owner\<close>: \<^verbatim>\<open>None\<close> and the empty string are false.\<close>

definition truthy :: "string option \<Rightarrow> bool" where
  "truthy v = (case v of None \<Rightarrow> False | Some s \<Rightarrow> s \<noteq> [])"

definition issue_ref_of :: "string option \<Rightarrow> int \<Rightarrow> string" where
  "issue_ref_of owner n = (if truthy owner then ''#'' @ py_str n else ''issue '' @ py_str n)"

text \<open>The f-string of lines 89 to 101.\<close>

definition implement_prompt :: "string \<Rightarrow> int \<Rightarrow> string \<Rightarrow> string" where
  "implement_prompt issue_ref n base_prompt =
     ''Read GitHub issue '' @ issue_ref @ '' and implement it.'' @ nl
     @ nl
     @ py_replace ''{task_description}'' (''See issue '' @ issue_ref) base_prompt @ nl
     @ py_replace ''{issue_number}'' (py_str n) base_prompt @ nl
     @ nl
     @ ''Steps:'' @ nl
     @ ''1. Read the issue to understand requirements'' @ nl
     @ ''2. Create branch: agent/'' @ py_str n @ nl
     @ ''3. Implement the solution'' @ nl
     @ ''4. Run tests if applicable'' @ nl
     @ ''5. Commit with meaningful messages'' @ nl
     @ ''6. Create a PR linking to the issue'' @ nl"

definition cmd_implement :: "'cfg env \<Rightarrow> args \<Rightarrow> 'cfg \<Rightarrow> int run" where
  "cmd_implement env a config =
     (case get_repo_info env of
        ((owner, repo), ev0) \<Rightarrow>
          (case issue a of
             None \<Rightarrow> (Inl (Uncaught AttributeError), ev0)
           | Some n \<Rightarrow>
               (let issue_ref = issue_ref_of owner n
                in case load_prompt env ''implement'' of
                     (Inl stop, ev1) \<Rightarrow> (Inl stop, ev0 @ ev1)
                   | (Inr base_prompt, ev1) \<Rightarrow>
                       (case run_claude_code env (implement_prompt issue_ref n base_prompt)
                               (print_only a) of
                          (rc, ev2) \<Rightarrow> (Inr rc, ev0 @ ev1 @ ev2)))))"

text \<open>The f-string of lines 110 to 119.\<close>

definition review_prompt :: "int \<Rightarrow> string \<Rightarrow> string" where
  "review_prompt n prompt_template =
     ''Review PR #'' @ py_str n @ '' for this repository.'' @ nl
     @ nl
     @ prompt_template @ nl
     @ nl
     @ ''Steps:'' @ nl
     @ ''1. Read the PR diff and description'' @ nl
     @ ''2. Check against the review criteria'' @ nl
     @ ''3. If issues found, post a review comment on the PR'' @ nl
     @ ''4. If LGTM, approve the PR (or post approval comment)'' @ nl"

definition cmd_review :: "'cfg env \<Rightarrow> args \<Rightarrow> 'cfg \<Rightarrow> int run" where
  "cmd_review env a config =
     (case load_prompt env ''review'' of
        (Inl stop, ev1) \<Rightarrow> (Inl stop, ev1)
      | (Inr prompt_template, ev1) \<Rightarrow>
          (case pr a of
             None \<Rightarrow> (Inl (Uncaught AttributeError), ev1)
           | Some n \<Rightarrow>
               (case run_claude_code env (review_prompt n prompt_template) (print_only a) of
                  (rc, ev2) \<Rightarrow> (Inr rc, ev1 @ ev2))))"

text \<open>The f-string of lines 128 to 134.\<close>

definition security_prompt :: "int \<Rightarrow> string \<Rightarrow> string" where
  "security_prompt n prompt_template =
     ''Perform a security review of PR #'' @ py_str n @ ''.'' @ nl
     @ nl
     @ prompt_template @ nl
     @ nl
     @ ''This is a SECURITY review - be thorough and paranoid.'' @ nl
     @ ''Post findings as a review comment on the PR.'' @ nl"

definition cmd_security_review :: "'cfg env \<Rightarrow> args \<Rightarrow> 'cfg \<Rightarrow> int run" where
  "cmd_security_review env a config =
     (case load_prompt env ''security'' of
        (Inl stop, ev1) \<Rightarrow> (Inl stop, ev1)
      | (Inr prompt_template, ev1) \<Rightarrow>
          (case pr a of
             None \<Rightarrow> (Inl (Uncaught AttributeError), ev1)
           | Some n \<Rightarrow>
               (case run_claude_code env (security_prompt n prompt_template) (print_only a) of
                  (rc, ev2) \<Rightarrow> (Inr rc, ev1 @ ev2))))"

subsection \<open>The batch handler (lines 139 to 160)\<close>

text \<open>
  The list comprehension of line 141 over the fields of the split: it converts them
  from the left and stops at the first \<^verbatim>\<open>ValueError\<close>.
\<close>

fun parse_issues :: "string list \<Rightarrow> exn + int list" where
  "parse_issues [] = Inr []"
| "parse_issues (i # rest) =
     (case py_int (py_strip i) of
        Inl e \<Rightarrow> Inl e
      | Inr n \<Rightarrow> (case parse_issues rest of Inl e \<Rightarrow> Inl e | Inr ns \<Rightarrow> Inr (n # ns)))"

definition batch_prompt :: "int \<Rightarrow> string" where
  "batch_prompt n =
     ''Read GitHub issue #'' @ py_str n @ '' and implement it. Create branch agent/''
     @ py_str n @ '', implement, and create a PR.''"

text \<open>
  A started process: its number in the order of the \<^verbatim>\<open>Popen\<close> calls and its command
  line.
\<close>

record proc =
  proc_id :: nat
  proc_args :: "string list"

text \<open>
  The loop of lines 146 to 151, on the issues still to start, the list
  \<^verbatim>\<open>processes\<close> and the trace so far.
\<close>

fun start_all :: "int list \<Rightarrow> (int \<times> proc) list \<Rightarrow> event list
    \<Rightarrow> (int \<times> proc) list \<times> event list" where
  "start_all [] processes ev = (processes, ev)"
| "start_all (n # rest) processes ev =
     (let cmd = [''claude'', ''--print'', batch_prompt n];
          p = \<lparr>proc_id = length processes, proc_args = cmd\<rparr>
      in start_all rest (processes @ [(n, p)])
           (ev @ [Print (''  Starting issue #'' @ py_str n @ ''...''), Popen (proc_id p) cmd]))"

text \<open>The loop of lines 155 to 158, on the processes still to wait for.\<close>

fun wait_all :: "'cfg env \<Rightarrow> (int \<times> proc) list \<Rightarrow> event list \<Rightarrow> event list" where
  "wait_all env [] ev = ev"
| "wait_all env ((n, p) # rest) ev =
     (let status = (if returncode env (proc_id p) (proc_args p) = 0 then ''done'' else ''failed'')
      in wait_all env rest
           (ev @ [Wait (proc_id p), Print (''  Issue #'' @ py_str n @ '': '' @ status)]))"

definition cmd_batch :: "'cfg env \<Rightarrow> args \<Rightarrow> 'cfg \<Rightarrow> int run" where
  "cmd_batch env a config =
     (case issues a of
        None \<Rightarrow> (Inl (Uncaught AttributeError), [])
      | Some s \<Rightarrow>
          (case py_split '','' s of
             Inl e \<Rightarrow> (Inl (Uncaught e), [])
           | Inr parts \<Rightarrow>
               (case parse_issues parts of
                  Inl e \<Rightarrow> (Inl (Uncaught e), [])
                | Inr ns \<Rightarrow>
                    (case start_all ns []
                            [Print (''Dispatching '' @ py_str (int (length ns)) @ '' tasks...'')] of
                       (processes, ev1) \<Rightarrow>
                         (Inr 0,
                          wait_all env processes
                            (ev1 @ [Print (nl @ ''Waiting for all tasks to complete...'')]))))))"

subsection \<open>The dispatcher (lines 207 to 228)\<close>

text \<open>The dictionary \<^verbatim>\<open>commands\<close>.\<close>

definition commands :: "string \<Rightarrow> ('cfg env \<Rightarrow> args \<Rightarrow> 'cfg \<Rightarrow> int run) option" where
  "commands =
     map_of [(''implement'', cmd_implement), (''review'', cmd_review),
             (''security-review'', cmd_security_review), (''batch'', cmd_batch)]"

definition provider_message :: "string \<Rightarrow> event list" where
  "provider_message p =
     [Print (''Provider '' @ [CHR 0x27] @ p @ [CHR 0x27] @ '' not yet implemented.''),
      Print ''Currently only claude-code (Max subscription) is supported.'',
      Print ''Other providers can be added to scripts/agent.py as needed.'']"

text \<open>\<^verbatim>\<open>main\<close> from line 207 on, given the namespace.\<close>

definition dispatch :: "'cfg env \<Rightarrow> args \<Rightarrow> abort \<times> event list" where
  "dispatch env a =
     (case load_config env of
        (Inl stop, ev0) \<Rightarrow> (stop, ev0)
      | (Inr config, ev0) \<Rightarrow>
          if provider a \<noteq> ''claude-code'' then (SysExit 1, ev0 @ provider_message (provider a))
          else
            (case commands (command a) of
               Some handler \<Rightarrow>
                 (case handler env a config of
                    (Inl stop, ev1) \<Rightarrow> (stop, ev0 @ ev1)
                  | (Inr rc, ev1) \<Rightarrow> (SysExit rc, ev0 @ ev1))
             | None \<Rightarrow> (SysExit 1, ev0 @ [PrintHelp])))"

definition main :: "'cfg env \<Rightarrow> invocation \<Rightarrow> abort \<times> event list" where
  "main env cl =
     (case parse_args cl of
        (Inl stop, ev) \<Rightarrow> (stop, ev)
      | (Inr a, ev) \<Rightarrow> (case dispatch env a of (stop, ev') \<Rightarrow> (stop, ev @ ev')))"

subsection \<open>Reading a trace\<close>

text \<open>
  The command lines of the agent processes \<^verbatim>\<open>subprocess.run\<close> started: those of the
  \<^verbatim>\<open>claude\<close> executable. The only other process the script runs is \<open>git_cmd\<close>.
\<close>

definition agent_runs :: "event list \<Rightarrow> string list list" where
  "agent_runs tr =
     concat (map (\<lambda>e. case e of
                         Run cmd \<Rightarrow> (if take 1 cmd = [''claude''] then [cmd] else [])
                       | _ \<Rightarrow> []) tr)"

text \<open>The batch processes started, and the ones waited for, in the order of the calls.\<close>

definition started :: "event list \<Rightarrow> (nat \<times> string list) list" where
  "started tr = concat (map (\<lambda>e. case e of Popen k cmd \<Rightarrow> [(k, cmd)] | _ \<Rightarrow> []) tr)"

definition waited :: "event list \<Rightarrow> nat list" where
  "waited tr = concat (map (\<lambda>e. case e of Wait k \<Rightarrow> [k] | _ \<Rightarrow> []) tr)"

text \<open>The line printed right after each \<^verbatim>\<open>proc.wait()\<close>, with the process waited for.\<close>

fun reports :: "event list \<Rightarrow> (nat \<times> string) list" where
  "reports (Wait k # Print line # tr) = (k, line) # reports tr"
| "reports (e # tr) = reports tr"
| "reports [] = []"

text \<open>The prompts handed to an agent process, by either call.\<close>

definition agent_prompts :: "event list \<Rightarrow> string list" where
  "agent_prompts tr =
     concat (map (\<lambda>e. case e of
                         Run cmd \<Rightarrow> (if take 1 cmd = [''claude''] then [last cmd] else [])
                       | Popen k cmd \<Rightarrow> [last cmd]
                       | _ \<Rightarrow> []) tr)"

text \<open>An event that only writes to the terminal.\<close>

fun is_message :: "event \<Rightarrow> bool" where
  "is_message (Print line) = True"
| "is_message PrintHelp = True"
| "is_message (PrintSubHelp c) = True"
| "is_message UsageError = True"
| "is_message e = False"

section \<open>Properties\<close>

subsection \<open>Argument parsing\<close>

lemma command_cases:
  obtains "k = ''implement''" | "k = ''review''" | "k = ''security-review''" | "k = ''batch''"
  | "k \<noteq> ''implement''" "k \<noteq> ''review''" "k \<noteq> ''security-review''" "k \<noteq> ''batch''"
  by blast

lemma parse_args_accepts:
  assumes "parse_args cl = (Inr a, ev)"
  shows "ev = []
    \<and> \<not> opt_help cl \<and> \<not> sub_help cl
    \<and> provider a = (case opt_provider cl of None \<Rightarrow> ''claude-code'' | Some p \<Rightarrow> p)
    \<and> print_only a = opt_print_only cl
    \<and> subcommand cl = Some (command a)
    \<and> (command a = ''implement'' \<or> command a = ''review'' \<or> command a = ''security-review''
         \<or> command a = ''batch'')
    \<and> (command a = ''implement'' \<longrightarrow> (\<exists>n. issue a = Some n))
    \<and> (command a = ''review'' \<or> command a = ''security-review'' \<longrightarrow> (\<exists>n. pr a = Some n))
    \<and> (command a = ''batch'' \<longrightarrow> (\<exists>s. issues a = Some s \<and> opt_issues cl = Some s))"
proof -
  have h: "\<not> opt_help cl"
    using assms by (auto simp: parse_args_def Let_def)
  obtain k where k: "subcommand cl = Some k"
    using assms h
    by (cases "subcommand cl") (simp_all add: parse_args_def usage_error_def Let_def)
  have sh: "\<not> sub_help cl"
    using assms h k
    by (cases k rule: command_cases) (auto simp: parse_args_def usage_error_def Let_def)
  show ?thesis
    using assms k h sh
    by (cases k rule: command_cases; cases "opt_issue cl"; cases "opt_pr cl";
        cases "opt_issues cl")
      (auto simp: parse_args_def usage_error_def Let_def split: sum.splits)
qed

lemma parse_args_rejects:
  assumes "\<not> opt_help cl"
    and "subcommand cl \<noteq> Some ''implement''" and "subcommand cl \<noteq> Some ''review''"
    and "subcommand cl \<noteq> Some ''security-review''" and "subcommand cl \<noteq> Some ''batch''"
  shows "parse_args cl = (Inl (SysExit 2), [UsageError])"
  using assms by (cases "subcommand cl") (simp_all add: parse_args_def usage_error_def Let_def)

lemma parse_args_rejected:
  assumes "parse_args cl = (Inl stop, ev)"
  shows "stop = SysExit 2 \<and> ev = [UsageError]
    \<or> stop = SysExit 0 \<and> opt_help cl \<and> ev = [PrintHelp]
    \<or> stop = SysExit 0 \<and> sub_help cl \<and> (\<exists>c. subcommand cl = Some c \<and> ev = [PrintSubHelp c])"
proof (cases "opt_help cl")
  case True
  then show ?thesis
    using assms by (simp add: parse_args_def Let_def)
next
  case False
  show ?thesis
  proof (cases "subcommand cl")
    case None
    then show ?thesis
      using assms False by (simp add: parse_args_def usage_error_def Let_def)
  next
    case (Some k)
    show ?thesis
      using assms False Some
      by (cases k rule: command_cases; cases "sub_help cl"; cases "opt_issue cl";
          cases "opt_pr cl"; cases "opt_issues cl")
        (auto simp: parse_args_def usage_error_def Let_def split: sum.splits)
  qed
qed

text \<open>Whatever argument parsing prints, it starts nothing.\<close>

lemma parse_args_quiet:
  assumes "parse_args cl = (r, ev)"
  shows "list_all is_message ev"
proof (cases r)
  case (Inl stop)
  with assms parse_args_rejected [of cl stop ev] show ?thesis
    by auto
next
  case (Inr a)
  with assms parse_args_accepts [of cl a ev] show ?thesis
    by simp
qed

subsection \<open>The configuration value\<close>

lemma wait_all_config_file:
  "wait_all (env\<lparr>config_file := v\<rparr>) ps ev = wait_all env ps ev"
  by (induction ps arbitrary: ev) (auto simp: Let_def)

lemma handlers_config_file:
  "cmd_implement (env\<lparr>config_file := v\<rparr>) a c = cmd_implement env a c"
  "cmd_review (env\<lparr>config_file := v\<rparr>) a c = cmd_review env a c"
  "cmd_security_review (env\<lparr>config_file := v\<rparr>) a c = cmd_security_review env a c"
  "cmd_batch (env\<lparr>config_file := v\<rparr>) a c = cmd_batch env a c"
  by (simp_all add: cmd_implement_def cmd_review_def cmd_security_review_def cmd_batch_def
      get_repo_info_def load_prompt_def run_claude_code_def wait_all_config_file
      cong: option.case_cong sum.case_cong prod.case_cong)

lemma handlers_config_value:
  "cmd_implement env a c1 = cmd_implement env a c2"
  "cmd_review env a c1 = cmd_review env a c2"
  "cmd_security_review env a c1 = cmd_security_review env a c2"
  "cmd_batch env a c1 = cmd_batch env a c2"
  by (simp_all add: cmd_implement_def cmd_review_def cmd_security_review_def cmd_batch_def)

lemma dispatch_config_value:
  "dispatch (env\<lparr>config_file := Some (Inr c1)\<rparr>) a = dispatch (env\<lparr>config_file := Some (Inr c2)\<rparr>) a"
proof (cases "command a" rule: command_cases)
  case 1
  then show ?thesis
    using handlers_config_value(1) [of env a c1 c2]
    by (simp add: dispatch_def load_config_def handlers_config_file commands_def)
next
  case 2
  then show ?thesis
    using handlers_config_value(2) [of env a c1 c2]
    by (simp add: dispatch_def load_config_def handlers_config_file commands_def)
next
  case 3
  then show ?thesis
    using handlers_config_value(3) [of env a c1 c2]
    by (simp add: dispatch_def load_config_def handlers_config_file commands_def)
next
  case 4
  then show ?thesis
    using handlers_config_value(4) [of env a c1 c2]
    by (simp add: dispatch_def load_config_def handlers_config_file commands_def)
next
  case 5
  then show ?thesis
    by (simp add: dispatch_def load_config_def commands_def)
qed

text \<open>
  C10, as the code has it. The handlers never read the configuration they are given:
  with any two configuration values and everything else the same, the whole run of
  each handler is the same, and with it the prompt composed and the command line
  started. The same holds for the dispatcher and the program with any two
  configuration files that exist and load. Loading is more than existing: a file that
  exists and that \<^verbatim>\<open>open\<close> or \<^verbatim>\<open>yaml.safe_load\<close> refuses ends every run whose
  command line parses on the exception, before anything else is done.
\<close>

theorem config_value_ignored:
  "cmd_implement env a c1 = cmd_implement env a c2
   \<and> cmd_review env a c1 = cmd_review env a c2
   \<and> cmd_security_review env a c1 = cmd_security_review env a c2
   \<and> cmd_batch env a c1 = cmd_batch env a c2
   \<and> dispatch (env\<lparr>config_file := Some (Inr c1)\<rparr>) a
     = dispatch (env\<lparr>config_file := Some (Inr c2)\<rparr>) a
   \<and> main (env\<lparr>config_file := Some (Inr c1)\<rparr>) cl
     = main (env\<lparr>config_file := Some (Inr c2)\<rparr>) cl
   \<and> dispatch (env\<lparr>config_file := Some (Inl e)\<rparr>) a = (Uncaught e, [])
   \<and> (parse_args cl = (Inr a, ev)
      \<longrightarrow> main (env\<lparr>config_file := Some (Inl e)\<rparr>) cl = (Uncaught e, []))"
proof -
  have d: "dispatch (env\<lparr>config_file := Some (Inr c1)\<rparr>) b
      = dispatch (env\<lparr>config_file := Some (Inr c2)\<rparr>) b"
    for b
    by (rule dispatch_config_value)
  have m: "main (env\<lparr>config_file := Some (Inr c1)\<rparr>) cl
      = main (env\<lparr>config_file := Some (Inr c2)\<rparr>) cl"
    by (simp add: main_def d split: prod.splits sum.splits)
  have x: "dispatch (env\<lparr>config_file := Some (Inl e)\<rparr>) b = (Uncaught e, [])" for b
    by (simp add: dispatch_def load_config_def)
  have y: "main (env\<lparr>config_file := Some (Inl e)\<rparr>) cl = (Uncaught e, [])"
    if "parse_args cl = (Inr a, ev)"
    using that parse_args_accepts [OF that] by (simp add: main_def x)
  show ?thesis
    using handlers_config_value [of env a c1 c2] m d [of a] x [of a] y
    by simp
qed

theorem config_value_ignored_witness:
  "main \<lparr>config_file = Some (Inr (1 :: nat)), config_path = ''.agent/config.yml'',
          prompt_files = (\<lambda>name. Some ''Be careful.''), prompt_path = (\<lambda>name. name),
          git_remote = Inr [], returncode = (\<lambda>k cmd. 0)\<rparr>
        \<lparr>opt_provider = None, opt_print_only = False, opt_help = False,
          subcommand = Some ''review'', sub_help = False,
          opt_issue = None, opt_pr = Some ''42'', opt_issues = None\<rparr>
     = main \<lparr>config_file = Some (Inr (2 :: nat)), config_path = ''.agent/config.yml'',
          prompt_files = (\<lambda>name. Some ''Be careful.''), prompt_path = (\<lambda>name. name),
          git_remote = Inr [], returncode = (\<lambda>k cmd. 0)\<rparr>
        \<lparr>opt_provider = None, opt_print_only = False, opt_help = False,
          subcommand = Some ''review'', sub_help = False,
          opt_issue = None, opt_pr = Some ''42'', opt_issues = None\<rparr>
   \<and> main \<lparr>config_file = Some (Inl YAMLError :: exn + nat), config_path = ''.agent/config.yml'',
          prompt_files = (\<lambda>name. Some ''Be careful.''), prompt_path = (\<lambda>name. name),
          git_remote = Inr [], returncode = (\<lambda>k cmd. 0)\<rparr>
        \<lparr>opt_provider = None, opt_print_only = False, opt_help = False,
          subcommand = Some ''review'', sub_help = False,
          opt_issue = None, opt_pr = Some ''42'', opt_issues = None\<rparr>
     = (Uncaught YAMLError, [])"
proof -
  let ?E = "\<lparr>config_file = (None :: (exn + nat) option), config_path = ''.agent/config.yml'',
          prompt_files = (\<lambda>name. Some ''Be careful.''), prompt_path = (\<lambda>name. name),
          git_remote = Inr [], returncode = (\<lambda>k cmd. 0)\<rparr>"
  let ?R = "\<lparr>opt_provider = None, opt_print_only = False, opt_help = False,
          subcommand = Some ''review'', sub_help = False,
          opt_issue = None, opt_pr = Some ''42'', opt_issues = None\<rparr>"
  have i42: "py_int ''42'' = Inr 42"
    by (simp add: py_int_def int_space_def is_digit_def digits_value_def digit_val_def
        int_max_str_digits_def)
  have p: "parse_args ?R = (Inr \<lparr>provider = ''claude-code'', print_only = False,
      command = ''review'', issue = None, pr = Some 42, issues = None\<rparr>, [])"
    by (simp add: parse_args_def i42)
  note w = config_value_ignored [of ?E
      "\<lparr>provider = ''claude-code'', print_only = False,
        command = ''review'', issue = None, pr = Some 42, issues = None\<rparr>"
      1 2 ?R YAMLError "[]"]
  have "main (?E\<lparr>config_file := Some (Inr 1)\<rparr>) ?R = main (?E\<lparr>config_file := Some (Inr 2)\<rparr>) ?R"
    using w by blast
  moreover have "main (?E\<lparr>config_file := Some (Inl YAMLError)\<rparr>) ?R = (Uncaught YAMLError, [])"
    using w p by blast
  ultimately show ?thesis
    by simp
qed

text \<open>
  The last clause of the claim as the specification words it fails: two configuration
  files that both exist, one a YAML document and one not, give two different runs of
  \<^verbatim>\<open>review --pr 42\<close>.
\<close>

theorem config_existence_counterexample:
  "config_file \<lparr>config_file = Some (Inr ()), config_path = ''.agent/config.yml'',
          prompt_files = (\<lambda>name. Some ''Be careful.''), prompt_path = (\<lambda>name. name),
          git_remote = Inr [], returncode = (\<lambda>k cmd. 0)\<rparr> \<noteq> None
   \<and> config_file \<lparr>config_file = Some (Inl YAMLError :: exn + unit),
          config_path = ''.agent/config.yml'',
          prompt_files = (\<lambda>name. Some ''Be careful.''), prompt_path = (\<lambda>name. name),
          git_remote = Inr [], returncode = (\<lambda>k cmd. 0)\<rparr> \<noteq> None
   \<and> main \<lparr>config_file = Some (Inr ()), config_path = ''.agent/config.yml'',
          prompt_files = (\<lambda>name. Some ''Be careful.''), prompt_path = (\<lambda>name. name),
          git_remote = Inr [], returncode = (\<lambda>k cmd. 0)\<rparr>
        \<lparr>opt_provider = None, opt_print_only = False, opt_help = False,
          subcommand = Some ''review'', sub_help = False,
          opt_issue = None, opt_pr = Some ''42'', opt_issues = None\<rparr>
     = (SysExit 0,
        [Print ''Running: claude <prompt>'', Print (replicate 50 (CHR ''-'')),
         Run [''claude'', review_prompt 42 ''Be careful.'']])
   \<and> main \<lparr>config_file = Some (Inl YAMLError :: exn + unit),
          config_path = ''.agent/config.yml'',
          prompt_files = (\<lambda>name. Some ''Be careful.''), prompt_path = (\<lambda>name. name),
          git_remote = Inr [], returncode = (\<lambda>k cmd. 0)\<rparr>
        \<lparr>opt_provider = None, opt_print_only = False, opt_help = False,
          subcommand = Some ''review'', sub_help = False,
          opt_issue = None, opt_pr = Some ''42'', opt_issues = None\<rparr>
     = (Uncaught YAMLError, [])"
proof -
  have i42: "py_int ''42'' = Inr 42"
    by (simp add: py_int_def int_space_def is_digit_def digits_value_def digit_val_def
        int_max_str_digits_def)
  show ?thesis
    by (simp add: main_def parse_args_def i42 dispatch_def load_config_def commands_def
        cmd_review_def load_prompt_def run_claude_code_def)
qed

subsection \<open>Unknown subcommands\<close>

text \<open>
  C4, as the code has it. A command line whose subcommand is not one of the four (or
  that has none) is rejected by argument parsing: usage message, exit status 2, whatever
  the environment; when a \<^verbatim>\<open>-h\<close> comes before it, the help is printed and the exit
  status is 0. Argument parsing returns only namespaces whose command is one of the
  four. The dispatcher's own fallback, print the help and exit with 1, is what it does
  for a namespace whose command has no handler when the configuration file exists and
  loads and the provider is the default.
\<close>

theorem unknown_subcommand_rejected:
  "(\<not> opt_help cl
      \<and> subcommand cl \<notin> {Some ''implement'', Some ''review'', Some ''security-review'', Some ''batch''}
      \<longrightarrow> main env cl = (SysExit 2, [UsageError]))
   \<and> (opt_help cl \<longrightarrow> main env cl = (SysExit 0, [PrintHelp]))
   \<and> (parse_args cl = (Inr a, ev)
      \<longrightarrow> command a \<in> {''implement'', ''review'', ''security-review'', ''batch''})
   \<and> (command b \<notin> {''implement'', ''review'', ''security-review'', ''batch''}
        \<and> config_file env = Some (Inr c) \<and> provider b = ''claude-code''
      \<longrightarrow> dispatch env b = (SysExit 1, [PrintHelp]))"
proof (intro conjI impI)
  assume "\<not> opt_help cl
    \<and> subcommand cl \<notin> {Some ''implement'', Some ''review'', Some ''security-review'', Some ''batch''}"
  then have "parse_args cl = (Inl (SysExit 2), [UsageError])"
    by (intro parse_args_rejects) simp_all
  then show "main env cl = (SysExit 2, [UsageError])"
    by (simp add: main_def)
next
  assume "opt_help cl"
  then show "main env cl = (SysExit 0, [PrintHelp])"
    by (simp add: main_def parse_args_def)
next
  assume "parse_args cl = (Inr a, ev)"
  from parse_args_accepts [OF this]
  show "command a \<in> {''implement'', ''review'', ''security-review'', ''batch''}"
    by blast
next
  assume "command b \<notin> {''implement'', ''review'', ''security-review'', ''batch''}
    \<and> config_file env = Some (Inr c) \<and> provider b = ''claude-code''"
  then show "dispatch env b = (SysExit 1, [PrintHelp])"
    by (simp add: dispatch_def load_config_def commands_def)
qed

theorem unknown_subcommand_rejected_witness:
  "main \<lparr>config_file = Some (Inr ()), config_path = ''.agent/config.yml'',
          prompt_files = (\<lambda>name. Some ''Be careful.''), prompt_path = (\<lambda>name. name),
          git_remote = Inr [], returncode = (\<lambda>k cmd. 0)\<rparr>
        \<lparr>opt_provider = None, opt_print_only = False, opt_help = False,
          subcommand = Some ''deploy'', sub_help = False,
          opt_issue = None, opt_pr = None, opt_issues = None\<rparr>
     = (SysExit 2, [UsageError])
   \<and> dispatch \<lparr>config_file = Some (Inr ()), config_path = ''.agent/config.yml'',
          prompt_files = (\<lambda>name. Some ''Be careful.''), prompt_path = (\<lambda>name. name),
          git_remote = Inr [], returncode = (\<lambda>k cmd. 0)\<rparr>
        \<lparr>provider = ''claude-code'', print_only = False, command = ''deploy'',
          issue = None, pr = None, issues = None\<rparr>
     = (SysExit 1, [PrintHelp])"
  using unknown_subcommand_rejected
    [of "\<lparr>opt_provider = None, opt_print_only = False, opt_help = False,
          subcommand = Some ''deploy'', sub_help = False,
          opt_issue = None, opt_pr = None, opt_issues = None\<rparr>"
        "\<lparr>config_file = Some (Inr ()), config_path = ''.agent/config.yml'',
          prompt_files = (\<lambda>name. Some ''Be careful.''), prompt_path = (\<lambda>name. name),
          git_remote = Inr [], returncode = (\<lambda>k cmd. 0)\<rparr>"
        _ _
        "\<lparr>provider = ''claude-code'', print_only = False, command = ''deploy'',
          issue = None, pr = None, issues = None\<rparr>" "()"]
  by simp

text \<open>
  The claim as the specification words it fails on a command line with the subcommand
  \<^verbatim>\<open>deploy\<close>: the exit status is 2 and the help is not printed.
\<close>

theorem unknown_subcommand_counterexample:
  "main \<lparr>config_file = Some (Inr ()), config_path = ''.agent/config.yml'',
          prompt_files = (\<lambda>name. Some ''Be careful.''), prompt_path = (\<lambda>name. name),
          git_remote = Inr [], returncode = (\<lambda>k cmd. 0)\<rparr>
        \<lparr>opt_provider = None, opt_print_only = False, opt_help = False,
          subcommand = Some ''deploy'', sub_help = False,
          opt_issue = None, opt_pr = None, opt_issues = None\<rparr>
     \<noteq> (SysExit 1, [PrintHelp])
   \<and> fst (main \<lparr>config_file = Some (Inr ()), config_path = ''.agent/config.yml'',
          prompt_files = (\<lambda>name. Some ''Be careful.''), prompt_path = (\<lambda>name. name),
          git_remote = Inr [], returncode = (\<lambda>k cmd. 0)\<rparr>
        \<lparr>opt_provider = None, opt_print_only = False, opt_help = False,
          subcommand = Some ''deploy'', sub_help = False,
          opt_issue = None, opt_pr = None, opt_issues = None\<rparr>) = SysExit 2
   \<and> PrintHelp \<notin> set (snd (main \<lparr>config_file = Some (Inr ()), config_path = ''.agent/config.yml'',
          prompt_files = (\<lambda>name. Some ''Be careful.''), prompt_path = (\<lambda>name. name),
          git_remote = Inr [], returncode = (\<lambda>k cmd. 0)\<rparr>
        \<lparr>opt_provider = None, opt_print_only = False, opt_help = False,
          subcommand = Some ''deploy'', sub_help = False,
          opt_issue = None, opt_pr = None, opt_issues = None\<rparr>))"
  by (simp add: main_def parse_args_def usage_error_def)

subsection \<open>Unsupported providers\<close>

lemma provider_message_messages: "list_all is_message (provider_message p)"
  by (simp add: provider_message_def)

text \<open>
  C7, as the code has it. The configuration is loaded before the provider is looked
  at. When the command line parses and \<^verbatim>\<open>--provider\<close> is anything but
  \<^verbatim>\<open>claude-code\<close>, no handler runs and no process is started, and the exit status
  is 1: the program prints the unsupported-provider message and exits when the
  configuration file exists and loads; it prints the config-not-found message and
  exits when the file does not exist; and when the file exists and does not load, the
  run ends on the exception of the loader with nothing printed by the script.
\<close>

theorem unsupported_provider_exit:
  assumes "parse_args cl = (Inr a, ev)" and "opt_provider cl = Some p" and "p \<noteq> ''claude-code''"
  shows "main env cl =
      (case config_file env of
         None \<Rightarrow> (SysExit 1, [Print (''Config not found at '' @ config_path env)])
       | Some (Inl e) \<Rightarrow> (Uncaught e, [])
       | Some (Inr c) \<Rightarrow> (SysExit 1, provider_message p))
    \<and> list_all is_message (snd (main env cl))
    \<and> exit_status (fst (main env cl)) = 1"
proof -
  from parse_args_accepts [OF assms(1)] assms(2)
  have a: "ev = []" "provider a = p"
    by simp_all
  have m: "main env cl =
      (case config_file env of
         None \<Rightarrow> (SysExit 1, [Print (''Config not found at '' @ config_path env)])
       | Some (Inl e) \<Rightarrow> (Uncaught e, [])
       | Some (Inr c) \<Rightarrow> (SysExit 1, provider_message p))"
    using assms(1,3) a
    by (simp add: main_def dispatch_def load_config_def split: option.splits sum.splits)
  show ?thesis
    unfolding m
    by (simp add: provider_message_messages exit_status_def split: option.splits sum.splits)
qed

theorem unsupported_provider_exit_witness:
  "main \<lparr>config_file = Some (Inr ()), config_path = ''.agent/config.yml'',
          prompt_files = (\<lambda>name. Some ''Be careful.''), prompt_path = (\<lambda>name. name),
          git_remote = Inr [], returncode = (\<lambda>k cmd. 0)\<rparr>
        \<lparr>opt_provider = Some ''ollama'', opt_print_only = False, opt_help = False,
          subcommand = Some ''batch'', sub_help = False,
          opt_issue = None, opt_pr = None, opt_issues = Some ''42,43''\<rparr>
     = (SysExit 1, provider_message ''ollama'')
   \<and> main \<lparr>config_file = Some (Inl YAMLError :: exn + unit),
          config_path = ''.agent/config.yml'',
          prompt_files = (\<lambda>name. Some ''Be careful.''), prompt_path = (\<lambda>name. name),
          git_remote = Inr [], returncode = (\<lambda>k cmd. 0)\<rparr>
        \<lparr>opt_provider = Some ''ollama'', opt_print_only = False, opt_help = False,
          subcommand = Some ''batch'', sub_help = False,
          opt_issue = None, opt_pr = None, opt_issues = Some ''42,43''\<rparr>
     = (Uncaught YAMLError, [])"
proof -
  let ?B = "\<lparr>opt_provider = Some ''ollama'', opt_print_only = False, opt_help = False,
          subcommand = Some ''batch'', sub_help = False,
          opt_issue = None, opt_pr = None, opt_issues = Some ''42,43''\<rparr>"
  have p: "parse_args ?B
      = (Inr \<lparr>provider = ''ollama'', print_only = False, command = ''batch'',
               issue = None, pr = None, issues = Some ''42,43''\<rparr>, [])"
    by (simp add: parse_args_def)
  have o: "opt_provider ?B = Some ''ollama''" and n: "''ollama'' \<noteq> ''claude-code''"
    by simp_all
  from unsupported_provider_exit [OF p o n,
      of "\<lparr>config_file = Some (Inr ()), config_path = ''.agent/config.yml'',
          prompt_files = (\<lambda>name. Some ''Be careful.''), prompt_path = (\<lambda>name. name),
          git_remote = Inr [], returncode = (\<lambda>k cmd. 0)\<rparr>"]
    unsupported_provider_exit [OF p o n,
      of "\<lparr>config_file = Some (Inl YAMLError :: exn + unit),
          config_path = ''.agent/config.yml'',
          prompt_files = (\<lambda>name. Some ''Be careful.''), prompt_path = (\<lambda>name. name),
          git_remote = Inr [], returncode = (\<lambda>k cmd. 0)\<rparr>"]
  show ?thesis
    by simp
qed

text \<open>
  The claim as the specification words it fails when the configuration file is missing:
  \<^verbatim>\<open>--provider ollama review --pr 42\<close> then exits with 1 on the config-not-found
  message, and the unsupported-provider message is never printed.
\<close>

theorem unsupported_provider_counterexample:
  "main \<lparr>config_file = (None :: (exn + unit) option), config_path = ''.agent/config.yml'',
          prompt_files = (\<lambda>name. Some ''Be careful.''), prompt_path = (\<lambda>name. name),
          git_remote = Inr [], returncode = (\<lambda>k cmd. 0)\<rparr>
        \<lparr>opt_provider = Some ''ollama'', opt_print_only = False, opt_help = False,
          subcommand = Some ''review'', sub_help = False,
          opt_issue = None, opt_pr = Some ''42'', opt_issues = None\<rparr>
     = (SysExit 1, [Print ''Config not found at .agent/config.yml''])
   \<and> [Print ''Config not found at .agent/config.yml''] \<noteq> provider_message ''ollama''"
  by (simp add: main_def parse_args_def dispatch_def load_config_def provider_message_def
      py_int_def int_space_def is_digit_def digits_value_def digit_val_def int_max_str_digits_def)

subsection \<open>A batch list that does not parse\<close>

lemma cmd_batch_raises:
  assumes "issues a = Some s" and "parse_issues (split_from '','' [] s) = Inl e"
  shows "cmd_batch env a c = (Inl (Uncaught e), [])"
  using assms by (simp add: cmd_batch_def py_split_def)

text \<open>
  C9. Argument parsing accepts \<^verbatim>\<open>--issues "1,a"\<close> and \<^verbatim>\<open>--issues "1,"\<close> (the
  option has no type), and the batch handler then raises \<^verbatim>\<open>ValueError\<close> in the
  list comprehension of line 141. Nobody catches it: with a configuration file that
  loads, the program ends on the exception with an empty trace, so nothing was printed
  by the script and no process was started, not even for the issue 1 of the list.
\<close>

theorem batch_bad_issue_uncaught:
  "parse_args \<lparr>opt_provider = None, opt_print_only = po, opt_help = False,
          subcommand = Some ''batch'', sub_help = False,
                opt_issue = None, opt_pr = None, opt_issues = Some ''1,a''\<rparr>
     = (Inr \<lparr>provider = ''claude-code'', print_only = po, command = ''batch'',
              issue = None, pr = None, issues = Some ''1,a''\<rparr>, [])
   \<and> main (env\<lparr>config_file := Some (Inr c)\<rparr>)
        \<lparr>opt_provider = None, opt_print_only = po, opt_help = False,
          subcommand = Some ''batch'', sub_help = False,
          opt_issue = None, opt_pr = None, opt_issues = Some ''1,a''\<rparr>
     = (Uncaught ValueError, [])
   \<and> parse_args \<lparr>opt_provider = None, opt_print_only = po, opt_help = False,
          subcommand = Some ''batch'', sub_help = False,
                opt_issue = None, opt_pr = None, opt_issues = Some ''1,''\<rparr>
     = (Inr \<lparr>provider = ''claude-code'', print_only = po, command = ''batch'',
              issue = None, pr = None, issues = Some ''1,''\<rparr>, [])
   \<and> main (env\<lparr>config_file := Some (Inr c)\<rparr>)
        \<lparr>opt_provider = None, opt_print_only = po, opt_help = False,
          subcommand = Some ''batch'', sub_help = False,
          opt_issue = None, opt_pr = None, opt_issues = Some ''1,''\<rparr>
     = (Uncaught ValueError, [])"
proof -
  have i1: "parse_issues (split_from '','' [] ''1,a'') = Inl ValueError"
    by (simp add: py_int_def py_strip_def py_isspace_def int_space_def is_digit_def
        digits_value_def digit_val_def int_max_str_digits_def)
  have i2: "parse_issues (split_from '','' [] ''1,'') = Inl ValueError"
    by (simp add: py_int_def py_strip_def py_isspace_def int_space_def is_digit_def
        digits_value_def digit_val_def int_max_str_digits_def)
  have b: "cmd_batch (env\<lparr>config_file := Some (Inr c)\<rparr>)
      \<lparr>provider = ''claude-code'', print_only = po, command = ''batch'',
        issue = None, pr = None, issues = Some s\<rparr> c = (Inl (Uncaught ValueError), [])"
    if "parse_issues (split_from '','' [] s) = Inl ValueError" for s
    using that by (intro cmd_batch_raises) simp_all
  show ?thesis
    using b [OF i1] b [OF i2]
    by (simp add: main_def parse_args_def dispatch_def load_config_def commands_def)
qed

subsection \<open>The batch handler\<close>

lemma parse_issues_length: "parse_issues parts = Inr ns \<Longrightarrow> length ns = length parts"
  by (induction parts arbitrary: ns) (auto split: sum.splits)

text \<open>The two loops, without their accumulators.\<close>

lemma start_all_closed:
  "start_all ns procs ev =
     (procs @ map (\<lambda>(k, n). (n, \<lparr>proc_id = k, proc_args = [''claude'', ''--print'', batch_prompt n]\<rparr>))
                (enumerate (length procs) ns),
      ev @ concat (map (\<lambda>(k, n). [Print (''  Starting issue #'' @ py_str n @ ''...''),
                                    Popen k [''claude'', ''--print'', batch_prompt n]])
                (enumerate (length procs) ns)))"
  by (induction ns arbitrary: procs ev) (simp_all add: Let_def)

lemma wait_all_closed:
  "wait_all env procs ev =
     ev @ concat (map (\<lambda>(n, p). [Wait (proc_id p),
         Print (''  Issue #'' @ py_str n @ '': ''
                @ (if returncode env (proc_id p) (proc_args p) = 0 then ''done'' else ''failed''))])
       procs)"
  by (induction procs arbitrary: ev) (auto simp: Let_def)

lemma started_append: "started (tr @ tr') = started tr @ started tr'"
  by (simp add: started_def)

lemma waited_append: "waited (tr @ tr') = waited tr @ waited tr'"
  by (simp add: waited_def)

lemma agent_runs_append: "agent_runs (tr @ tr') = agent_runs tr @ agent_runs tr'"
  by (simp add: agent_runs_def)

lemma reports_no_wait: "waited tr = [] \<Longrightarrow> reports (tr @ tr') = reports tr'"
proof (induction tr)
  case Nil
  then show ?case by simp
next
  case (Cons e tr)
  then show ?case by (cases e) (simp_all add: waited_def)
qed

lemma reports_pairs:
  "reports (concat (map (\<lambda>x. [Wait (f x), Print (g x)]) xs)) = map (\<lambda>x. (f x, g x)) xs"
  by (induction xs) simp_all

lemma started_starting:
  "started (concat (map (\<lambda>(k, n). [Print (f k n), Popen k (g n)]) xs))
     = map (\<lambda>(k, n). (k, g n)) xs"
  by (induction xs) (auto simp: started_def)

lemma waited_starting:
  "waited (concat (map (\<lambda>(k, n). [Print (f k n), Popen k (g n)]) xs)) = []"
  by (induction xs) (auto simp: waited_def)

lemma started_waiting:
  "started (concat (map (\<lambda>x. [Wait (f x), Print (g x)]) xs)) = []"
  by (induction xs) (auto simp: started_def)

lemma waited_waiting:
  "waited (concat (map (\<lambda>x. [Wait (f x), Print (g x)]) xs)) = map f xs"
  by (induction xs) (auto simp: waited_def)

text \<open>The trace of a batch run whose list parses.\<close>

lemma cmd_batch_trace:
  assumes "issues a = Some s" and "py_split '','' s = Inr parts" and "parse_issues parts = Inr ns"
  shows "cmd_batch env a c =
    (Inr 0,
     ([Print (''Dispatching '' @ py_str (int (length ns)) @ '' tasks...'')]
      @ concat (map (\<lambda>(k, n). [Print (''  Starting issue #'' @ py_str n @ ''...''),
                                  Popen k [''claude'', ''--print'', batch_prompt n]])
                 (enumerate 0 ns))
      @ [Print (nl @ ''Waiting for all tasks to complete...'')])
     @ concat (map (\<lambda>(k, n). [Wait k,
           Print (''  Issue #'' @ py_str n @ '': ''
                  @ (if returncode env k [''claude'', ''--print'', batch_prompt n] = 0
                     then ''done'' else ''failed''))])
         (enumerate 0 ns)))"
  using assms
  by (simp add: cmd_batch_def start_all_closed wait_all_closed comp_def case_prod_unfold)

text \<open>
  C2. When the comma-separated list given to \<^verbatim>\<open>batch\<close> parses into the issue numbers
  \<open>ns\<close>, one for each of its \<open>n\<close> fields: the handler returns 0; it starts exactly
  \<open>n\<close> processes, the \<open>k\<close>-th with the prompt of the \<open>k\<close>-th issue; every start
  comes before the first wait, so no start depends on another process; it waits for the
  processes in the order of the list; and the line it prints after the \<open>k\<close>-th wait
  names the \<open>k\<close>-th issue with \<^verbatim>\<open>done\<close> when the return code of that process is 0
  and with \<^verbatim>\<open>failed\<close> when it is not. It runs nothing else.
\<close>

theorem batch_one_process_per_issue:
  assumes "issues a = Some s" and "py_split '','' s = Inr parts" and "parse_issues parts = Inr ns"
  shows "fst (cmd_batch env a c) = Inr 0
    \<and> length ns = length parts
    \<and> started (snd (cmd_batch env a c))
        = map (\<lambda>(k, n). (k, [''claude'', ''--print'', batch_prompt n])) (enumerate 0 ns)
    \<and> waited (snd (cmd_batch env a c)) = [0..<length ns]
    \<and> reports (snd (cmd_batch env a c))
        = map (\<lambda>(k, n). (k, ''  Issue #'' @ py_str n @ '': ''
                  @ (if returncode env k [''claude'', ''--print'', batch_prompt n] = 0
                     then ''done'' else ''failed'')))
            (enumerate 0 ns)
    \<and> (\<exists>tr1 tr2. snd (cmd_batch env a c) = tr1 @ tr2
          \<and> length (started tr1) = length ns \<and> waited tr1 = []
          \<and> started tr2 = [] \<and> waited tr2 = [0..<length ns])
    \<and> agent_runs (snd (cmd_batch env a c)) = []"
proof -
  define starting where "starting =
    [Print (''Dispatching '' @ py_str (int (length ns)) @ '' tasks...'')]
    @ concat (map (\<lambda>(k, n). [Print (''  Starting issue #'' @ py_str n @ ''...''),
                                Popen k [''claude'', ''--print'', batch_prompt n]])
               (enumerate 0 ns))
    @ [Print (nl @ ''Waiting for all tasks to complete...'')]"
  define label where "label = (\<lambda>p :: nat \<times> int. ''  Issue #'' @ py_str (snd p) @ '': ''
      @ (if returncode env (fst p) [''claude'', ''--print'', batch_prompt (snd p)] = 0
         then ''done'' else ''failed''))"
  define waiting where "waiting = concat (map (\<lambda>p. [Wait (fst p), Print (label p)]) (enumerate 0 ns))"
  have run: "cmd_batch env a c = (Inr 0, starting @ waiting)"
    unfolding starting_def waiting_def label_def cmd_batch_trace [OF assms]
    by (simp add: case_prod_unfold)
  have s1: "started starting = map (\<lambda>(k, n). (k, [''claude'', ''--print'', batch_prompt n])) (enumerate 0 ns)"
    unfolding starting_def started_append started_starting by (simp add: started_def)
  have w1: "waited starting = []"
    unfolding starting_def waited_append waited_starting by (simp add: waited_def)
  have s2: "started waiting = []"
    unfolding waiting_def by (rule started_waiting)
  have w2: "waited waiting = [0..<length ns]"
    unfolding waiting_def waited_waiting by simp
  have r: "reports (starting @ waiting) = map (\<lambda>p. (fst p, label p)) (enumerate 0 ns)"
    unfolding reports_no_wait [OF w1] unfolding waiting_def by (rule reports_pairs)
  have ar: "agent_runs (starting @ waiting) = []"
  proof -
    have "agent_runs (concat (map (\<lambda>(k, n). [Print (f k n), Popen k (g n)]) xs)) = []"
      for f :: "nat \<Rightarrow> int \<Rightarrow> string" and g xs
      by (induction xs) (auto simp: agent_runs_def)
    moreover have "agent_runs (concat (map (\<lambda>p. [Wait (fst p), Print (label p)]) xs)) = []" for xs
      by (induction xs) (auto simp: agent_runs_def)
    ultimately show ?thesis
      unfolding starting_def waiting_def agent_runs_append by (simp add: agent_runs_def)
  qed
  have split: "\<exists>tr1 tr2. starting @ waiting = tr1 @ tr2
          \<and> length (started tr1) = length ns \<and> waited tr1 = []
          \<and> started tr2 = [] \<and> waited tr2 = [0..<length ns]"
    using s1 w1 s2 w2 by (intro exI [of _ starting] exI [of _ waiting]) simp
  show ?thesis
    unfolding run using s1 w1 s2 w2 r ar split parse_issues_length [OF assms(3)]
    by (simp add: started_append waited_append label_def case_prod_unfold)
qed

theorem batch_one_process_per_issue_witness:
  "fst (cmd_batch \<lparr>config_file = Some (Inr ()), config_path = ''.agent/config.yml'',
          prompt_files = (\<lambda>name. None), prompt_path = (\<lambda>name. name),
          git_remote = Inr [], returncode = (\<lambda>k cmd. if k = 1 then 3 else 0)\<rparr>
        \<lparr>provider = ''claude-code'', print_only = False, command = ''batch'',
          issue = None, pr = None, issues = Some ''1, 2,3''\<rparr> ()) = Inr 0
   \<and> waited (snd (cmd_batch \<lparr>config_file = Some (Inr ()), config_path = ''.agent/config.yml'',
          prompt_files = (\<lambda>name. None), prompt_path = (\<lambda>name. name),
          git_remote = Inr [], returncode = (\<lambda>k cmd. if k = 1 then 3 else 0)\<rparr>
        \<lparr>provider = ''claude-code'', print_only = False, command = ''batch'',
          issue = None, pr = None, issues = Some ''1, 2,3''\<rparr> ())) = [0, 1, 2]
   \<and> reports (snd (cmd_batch \<lparr>config_file = Some (Inr ()), config_path = ''.agent/config.yml'',
          prompt_files = (\<lambda>name. None), prompt_path = (\<lambda>name. name),
          git_remote = Inr [], returncode = (\<lambda>k cmd. if k = 1 then 3 else 0)\<rparr>
        \<lparr>provider = ''claude-code'', print_only = False, command = ''batch'',
          issue = None, pr = None, issues = Some ''1, 2,3''\<rparr> ()))
      = [(0, ''  Issue #1: done''), (1, ''  Issue #2: failed''), (2, ''  Issue #3: done'')]"
proof -
  have sp: "py_split '','' ''1, 2,3'' = Inr [''1'', '' 2'', ''3'']"
    by (simp add: py_split_def)
  have pi: "parse_issues [''1'', '' 2'', ''3''] = Inr [1, 2, 3]"
    by (simp add: py_int_def py_strip_def py_isspace_def int_space_def is_digit_def
        digits_value_def digit_val_def int_max_str_digits_def)
  have st: "py_str 1 = ''1''" "py_str 2 = ''2''" "py_str 3 = ''3''"
    by (simp_all add: py_str_def nat_digits.simps digit_char_def)
  from batch_one_process_per_issue [OF _ sp pi,
      of "\<lparr>provider = ''claude-code'', print_only = False, command = ''batch'',
          issue = None, pr = None, issues = Some ''1, 2,3''\<rparr>"
         "\<lparr>config_file = Some (Inr ()), config_path = ''.agent/config.yml'',
          prompt_files = (\<lambda>name. None), prompt_path = (\<lambda>name. name),
          git_remote = Inr [], returncode = (\<lambda>k cmd. if k = 1 then 3 else 0)\<rparr>" "()"]
  show ?thesis
    by (simp add: st upt_rec)
qed

subsection \<open>Exit codes\<close>











lemma exit_status_code: "0 \<le> n \<Longrightarrow> n < 256 \<Longrightarrow> exit_status (SysExit n) = n"
  by (simp add: exit_status_def)




subsection \<open>A failed lookup of the remote\<close>

lemma get_repo_info_failed:
  assumes "(\<exists>e. repo_info_try (git_remote env) = Inl e) \<or> repo_info_try (git_remote env) = Inr None"
  shows "get_repo_info env = ((None, None), [Run git_cmd])"
  using assms by (auto simp: get_repo_info_def)

text \<open>
  C8. When the \<^verbatim>\<open>try\<close> block of \<^verbatim>\<open>get_repo_info\<close> raises (the \<^verbatim>\<open>git\<close> call or
  the parsing of its output) or falls through because the URL does not mention
  \<^verbatim>\<open>github.com\<close>, the function returns \<^verbatim>\<open>(None, None)\<close> and the exception goes no
  further: the handler names the task \<^verbatim>\<open>issue N\<close>, not \<^verbatim>\<open>#N\<close>, and with the
  template in place it runs the agent on the prompt composed with that name, which
  opens with \<^verbatim>\<open>Read GitHub issue issue N and implement it.\<close>
\<close>

theorem failed_lookup_degrades:
  assumes "(\<exists>e. repo_info_try (git_remote env) = Inl e) \<or> repo_info_try (git_remote env) = Inr None"
    and "issue a = Some n" and "prompt_files env ''implement'' = Some base_prompt"
  shows "fst (get_repo_info env) = (None, None)
    \<and> issue_ref_of (fst (fst (get_repo_info env))) n = ''issue '' @ py_str n
    \<and> issue_ref_of (fst (fst (get_repo_info env))) n \<noteq> ''#'' @ py_str n
    \<and> cmd_implement env a c
        = (Inr (returncode env 0
                  ([''claude''] @ (if print_only a then [''--print''] else [])
                   @ [implement_prompt (''issue '' @ py_str n) n base_prompt])),
           [Run git_cmd,
            Print (''Running: claude '' @ (if print_only a then ''--print '' else [])
                   @ ''<prompt>''),
            Print (replicate 50 (CHR ''-'')),
            Run ([''claude''] @ (if print_only a then [''--print''] else [])
                 @ [implement_prompt (''issue '' @ py_str n) n base_prompt])])
    \<and> prefix (''Read GitHub issue issue '' @ py_str n @ '' and implement it.'')
         (implement_prompt (''issue '' @ py_str n) n base_prompt)"
proof -
  note g = get_repo_info_failed [OF assms(1)]
  have r: "issue_ref_of None n = ''issue '' @ py_str n"
    by (simp add: issue_ref_of_def truthy_def)
  have "cmd_implement env a c
        = (Inr (returncode env 0
                  ([''claude''] @ (if print_only a then [''--print''] else [])
                   @ [implement_prompt (''issue '' @ py_str n) n base_prompt])),
           [Run git_cmd,
            Print (''Running: claude '' @ (if print_only a then ''--print '' else [])
                   @ ''<prompt>''),
            Print (replicate 50 (CHR ''-'')),
            Run ([''claude''] @ (if print_only a then [''--print''] else [])
                 @ [implement_prompt (''issue '' @ py_str n) n base_prompt])])"
    using assms(2,3)
    by (simp add: cmd_implement_def g r load_prompt_def run_claude_code_def Let_def)
  moreover have "prefix (''Read GitHub issue issue '' @ py_str n @ '' and implement it.'')
         (implement_prompt (''issue '' @ py_str n) n base_prompt)"
    by (simp add: implement_prompt_def)
  ultimately show ?thesis
    by (simp add: g r)
qed

theorem failed_lookup_degrades_witness:
  "cmd_implement \<lparr>config_file = Some (Inr ()), config_path = ''.agent/config.yml'',
          prompt_files = (\<lambda>name. Some ''Task: {task_description}''),
          prompt_path = (\<lambda>name. name),
          git_remote = Inl OSError, returncode = (\<lambda>k cmd. 0)\<rparr>
        \<lparr>provider = ''claude-code'', print_only = False, command = ''implement'',
          issue = Some 42, pr = None, issues = None\<rparr> ()
     = (Inr 0,
        [Run git_cmd, Print ''Running: claude <prompt>'', Print (replicate 50 (CHR ''-'')),
         Run [''claude'', implement_prompt ''issue 42'' 42 ''Task: {task_description}'']])
   \<and> cmd_implement \<lparr>config_file = Some (Inr ()), config_path = ''.agent/config.yml'',
          prompt_files = (\<lambda>name. Some ''Task: {task_description}''),
          prompt_path = (\<lambda>name. name),
          git_remote = Inr (''https://gitlab.com/acme/shop.git'' @ nl),
          returncode = (\<lambda>k cmd. 0)\<rparr>
        \<lparr>provider = ''claude-code'', print_only = False, command = ''implement'',
          issue = Some 42, pr = None, issues = None\<rparr> ()
     = (Inr 0,
        [Run git_cmd, Print ''Running: claude <prompt>'', Print (replicate 50 (CHR ''-'')),
         Run [''claude'', implement_prompt ''issue 42'' 42 ''Task: {task_description}'']])
   \<and> cmd_implement \<lparr>config_file = Some (Inr ()), config_path = ''.agent/config.yml'',
          prompt_files = (\<lambda>name. Some ''Task: {task_description}''),
          prompt_path = (\<lambda>name. name),
          git_remote = Inr (''https://github.com/acme/shop/tree/main'' @ nl),
          returncode = (\<lambda>k cmd. 0)\<rparr>
        \<lparr>provider = ''claude-code'', print_only = False, command = ''implement'',
          issue = Some 42, pr = None, issues = None\<rparr> ()
     = (Inr 0,
        [Run git_cmd, Print ''Running: claude <prompt>'', Print (replicate 50 (CHR ''-'')),
         Run [''claude'', implement_prompt ''issue 42'' 42 ''Task: {task_description}'']])"
proof -
  let ?A = "\<lparr>provider = ''claude-code'', print_only = False, command = ''implement'',
          issue = Some 42, pr = None, issues = None\<rparr>"
  let ?E = "\<lambda>g. \<lparr>config_file = Some (Inr ()), config_path = ''.agent/config.yml'',
          prompt_files = (\<lambda>name. Some ''Task: {task_description}''),
          prompt_path = (\<lambda>name. name),
          git_remote = g, returncode = (\<lambda>k cmd. 0)\<rparr>"
  have s: "py_str 42 = ''42''"
    by (simp add: py_str_def nat_digits.simps digit_char_def)
  have t1: "(\<exists>e. repo_info_try (git_remote (?E (Inl OSError))) = Inl e)
      \<or> repo_info_try (git_remote (?E (Inl OSError))) = Inr None"
    by (simp add: repo_info_try_def)
  have t2: "(\<exists>e. repo_info_try (git_remote (?E (Inr (''https://gitlab.com/acme/shop.git'' @ nl)))) = Inl e)
      \<or> repo_info_try (git_remote (?E (Inr (''https://gitlab.com/acme/shop.git'' @ nl)))) = Inr None"
    by (simp add: repo_info_try_def nl_def py_strip_def py_isspace_def)
  have t3: "(\<exists>e. repo_info_try (git_remote (?E (Inr (''https://github.com/acme/shop/tree/main'' @ nl)))) = Inl e)
      \<or> repo_info_try (git_remote (?E (Inr (''https://github.com/acme/shop/tree/main'' @ nl)))) = Inr None"
    by (simp add: repo_info_try_def nl_def py_strip_def py_isspace_def py_split_def py_index_def
        py_replace_def)
  have i: "issue ?A = Some 42"
    by simp
  have p: "prompt_files (?E g) ''implement'' = Some ''Task: {task_description}''" for g
    by simp
  note w1 = failed_lookup_degrades [OF t1 i p, of "()"]
    and w2 = failed_lookup_degrades [OF t2 i p, of "()"]
    and w3 = failed_lookup_degrades [OF t3 i p, of "()"]
  have "cmd_implement (?E (Inl OSError)) ?A () = (Inr 0,
        [Run git_cmd, Print ''Running: claude <prompt>'', Print (replicate 50 (CHR ''-'')),
         Run [''claude'', implement_prompt ''issue 42'' 42 ''Task: {task_description}'']])"
    using w1 by (simp add: s)
  moreover have "cmd_implement (?E (Inr (''https://gitlab.com/acme/shop.git'' @ nl))) ?A () = (Inr 0,
        [Run git_cmd, Print ''Running: claude <prompt>'', Print (replicate 50 (CHR ''-'')),
         Run [''claude'', implement_prompt ''issue 42'' 42 ''Task: {task_description}'']])"
    using w2 by (simp add: s)
  moreover have "cmd_implement (?E (Inr (''https://github.com/acme/shop/tree/main'' @ nl))) ?A () = (Inr 0,
        [Run git_cmd, Print ''Running: claude <prompt>'', Print (replicate 50 (CHR ''-'')),
         Run [''claude'', implement_prompt ''issue 42'' 42 ''Task: {task_description}'']])"
    using w3 by (simp add: s)
  ultimately show ?thesis
    by simp
qed

subsection \<open>Missing files\<close>

lemma missing_template_runs:
  "prompt_files env ''implement'' = None \<Longrightarrow> issue a = Some n \<Longrightarrow>
     cmd_implement env a c
       = (Inl (SysExit 1), [Run git_cmd, Print (''Prompt not found: '' @ prompt_path env ''implement'')])"
  "prompt_files env ''review'' = None \<Longrightarrow>
     cmd_review env a c
       = (Inl (SysExit 1), [Print (''Prompt not found: '' @ prompt_path env ''review'')])"
  "prompt_files env ''security'' = None \<Longrightarrow>
     cmd_security_review env a c
       = (Inl (SysExit 1), [Print (''Prompt not found: '' @ prompt_path env ''security'')])"
  by (simp_all add: cmd_implement_def cmd_review_def cmd_security_review_def load_prompt_def
      get_repo_info_def split: prod.splits)

text \<open>
  C6, as the code has it. When the configuration file does not exist, or the template
  of the chosen subcommand does not exist, and the command line does not ask for help,
  the program exits with 1 (with 2 when the command line itself is rejected) and prints
  a message. It hands no prompt to any agent and starts no agent process. Everything
  else in the trace is a message, but for one call: \<^verbatim>\<open>implement\<close> with the
  configuration in place has run the \<^verbatim>\<open>git\<close> lookup of the remote by the time it
  looks for its template. One run ends otherwise, with the same exit status 1: when
  the template is missing and the configuration file exists but does not load, the
  run ends in \<^verbatim>\<open>load_config\<close> on the exception, before the script prints anything.
\<close>

theorem missing_file_stops_run:
  assumes "config_file env = None
    \<or> subcommand cl = Some ''implement'' \<and> prompt_files env ''implement'' = None
    \<or> subcommand cl = Some ''review'' \<and> prompt_files env ''review'' = None
    \<or> subcommand cl = Some ''security-review'' \<and> prompt_files env ''security'' = None"
    and "\<not> opt_help cl" and "\<not> sub_help cl"
  shows "exit_status (fst (main env cl)) = (case fst (parse_args cl) of Inl stop \<Rightarrow> 2 | Inr a \<Rightarrow> 1)
    \<and> agent_prompts (snd (main env cl)) = []
    \<and> agent_runs (snd (main env cl)) = []
    \<and> started (snd (main env cl)) = []
    \<and> (\<forall>e \<in> set (snd (main env cl)).
          is_message e
          \<or> e = Run git_cmd \<and> subcommand cl = Some ''implement'' \<and> config_file env \<noteq> None)
    \<and> ((\<forall>x. config_file env \<noteq> Some (Inl x)) \<longrightarrow>
          fst (main env cl)
            = (case fst (parse_args cl) of Inl stop \<Rightarrow> SysExit 2 | Inr a \<Rightarrow> SysExit 1)
          \<and> (\<exists>e \<in> set (snd (main env cl)). is_message e))
    \<and> (config_file env = Some (Inl x) \<longrightarrow>
          main env cl
            = (case fst (parse_args cl) of
                 Inl stop \<Rightarrow> (SysExit 2, [UsageError])
               | Inr a \<Rightarrow> (Uncaught x, [])))"
proof -
  obtain r0 ev where p: "parse_args cl = (r0, ev)"
    by (cases "parse_args cl")
  show ?thesis
  proof (cases r0)
    case (Inl stop)
    from parse_args_rejected [OF p [unfolded Inl]] assms(2,3)
    have run: "main env cl = (SysExit 2, [UsageError])"
      using p Inl by (auto simp: main_def)
    show ?thesis
      unfolding run using p Inl
      by (simp add: agent_prompts_def agent_runs_def started_def exit_status_def)
  next
    case (Inr a)
    note acc = parse_args_accepts [OF p [unfolded Inr]]
    then have ev: "ev = []" and sub: "subcommand cl = Some (command a)"
      by simp_all
    have m: "main env cl = dispatch env a"
      using p Inr ev by (simp add: main_def)
    show ?thesis
    proof (cases "config_file env")
      case None
      then have run: "main env cl = (SysExit 1, [Print (''Config not found at '' @ config_path env)])"
        unfolding m by (simp add: dispatch_def load_config_def)
      show ?thesis
        unfolding run using p Inr None
        by (simp add: agent_prompts_def agent_runs_def started_def exit_status_def)
    next
      case (Some loaded)
      show ?thesis
      proof (cases loaded)
        case (Inl y)
        with Some have run: "main env cl = (Uncaught y, [])"
          unfolding m by (simp add: dispatch_def load_config_def)
        show ?thesis
          unfolding run using p Inr Some Inl
          by (simp add: agent_prompts_def agent_runs_def started_def exit_status_def)
      next
        case (Inr c)
        note cf = Some [unfolded Inr]
        show ?thesis
        proof (cases "provider a = ''claude-code''")
          case False
          then have run: "main env cl = (SysExit 1, provider_message (provider a))"
            unfolding m using cf by (simp add: dispatch_def load_config_def)
          show ?thesis
            unfolding run using p \<open>r0 = Inr a\<close> cf
            by (simp add: agent_prompts_def agent_runs_def started_def exit_status_def
                provider_message_def)
        next
          case True
          from assms(1) cf sub consider
            (i) "command a = ''implement''" "prompt_files env ''implement'' = None"
            | (r) "command a = ''review''" "prompt_files env ''review'' = None"
            | (s) "command a = ''security-review''" "prompt_files env ''security'' = None"
            by auto
          then show ?thesis
          proof cases
            case i
            from acc i(1) obtain n where "issue a = Some n"
              by auto
            from missing_template_runs(1) [OF i(2) this]
            have run: "main env cl = (SysExit 1,
                [Run git_cmd, Print (''Prompt not found: '' @ prompt_path env ''implement'')])"
              unfolding m using cf True i(1)
              by (simp add: dispatch_def load_config_def commands_def)
            show ?thesis
              unfolding run using p \<open>r0 = Inr a\<close> sub i(1) cf
              by (simp add: agent_prompts_def agent_runs_def started_def git_cmd_def
                  exit_status_def)
          next
            case r
            from missing_template_runs(2) [OF r(2)]
            have run: "main env cl = (SysExit 1,
                [Print (''Prompt not found: '' @ prompt_path env ''review'')])"
              unfolding m using cf True r(1)
              by (simp add: dispatch_def load_config_def commands_def)
            show ?thesis
              unfolding run using p \<open>r0 = Inr a\<close> cf
              by (simp add: agent_prompts_def agent_runs_def started_def exit_status_def)
          next
            case s
            from missing_template_runs(3) [OF s(2)]
            have run: "main env cl = (SysExit 1,
                [Print (''Prompt not found: '' @ prompt_path env ''security'')])"
              unfolding m using cf True s(1)
              by (simp add: dispatch_def load_config_def commands_def)
            show ?thesis
              unfolding run using p \<open>r0 = Inr a\<close> cf
              by (simp add: agent_prompts_def agent_runs_def started_def exit_status_def)
          qed
        qed
      qed
    qed
  qed
qed

theorem missing_file_stops_run_witness:
  "fst (main \<lparr>config_file = Some (Inr ()), config_path = ''.agent/config.yml'',
          prompt_files = (\<lambda>name. None),
          prompt_path = (\<lambda>name. ''.agent/prompts/'' @ name @ ''.md''),
          git_remote = Inr [], returncode = (\<lambda>k cmd. 0)\<rparr>
        \<lparr>opt_provider = None, opt_print_only = False, opt_help = False,
          subcommand = Some ''review'', sub_help = False,
          opt_issue = None, opt_pr = Some ''42'', opt_issues = None\<rparr>) = SysExit 1
   \<and> agent_runs (snd (main \<lparr>config_file = Some (Inr ()), config_path = ''.agent/config.yml'',
          prompt_files = (\<lambda>name. None),
          prompt_path = (\<lambda>name. ''.agent/prompts/'' @ name @ ''.md''),
          git_remote = Inr [], returncode = (\<lambda>k cmd. 0)\<rparr>
        \<lparr>opt_provider = None, opt_print_only = False, opt_help = False,
          subcommand = Some ''review'', sub_help = False,
          opt_issue = None, opt_pr = Some ''42'', opt_issues = None\<rparr>)) = []
   \<and> fst (main \<lparr>config_file = (None :: (exn + unit) option), config_path = ''.agent/config.yml'',
          prompt_files = (\<lambda>name. Some ''Be careful.''),
          prompt_path = (\<lambda>name. ''.agent/prompts/'' @ name @ ''.md''),
          git_remote = Inr [], returncode = (\<lambda>k cmd. 0)\<rparr>
        \<lparr>opt_provider = None, opt_print_only = False, opt_help = False,
          subcommand = Some ''batch'', sub_help = False,
          opt_issue = None, opt_pr = None, opt_issues = Some ''42,43''\<rparr>) = SysExit 1
   \<and> started (snd (main \<lparr>config_file = (None :: (exn + unit) option), config_path = ''.agent/config.yml'',
          prompt_files = (\<lambda>name. Some ''Be careful.''),
          prompt_path = (\<lambda>name. ''.agent/prompts/'' @ name @ ''.md''),
          git_remote = Inr [], returncode = (\<lambda>k cmd. 0)\<rparr>
        \<lparr>opt_provider = None, opt_print_only = False, opt_help = False,
          subcommand = Some ''batch'', sub_help = False,
          opt_issue = None, opt_pr = None, opt_issues = Some ''42,43''\<rparr>)) = []"
proof -
  let ?E1 = "\<lparr>config_file = Some (Inr ()), config_path = ''.agent/config.yml'',
          prompt_files = (\<lambda>name. None),
          prompt_path = (\<lambda>name. ''.agent/prompts/'' @ name @ ''.md''),
          git_remote = Inr [], returncode = (\<lambda>k cmd. 0)\<rparr>"
  let ?R = "\<lparr>opt_provider = None, opt_print_only = False, opt_help = False,
          subcommand = Some ''review'', sub_help = False,
          opt_issue = None, opt_pr = Some ''42'', opt_issues = None\<rparr>"
  let ?E2 = "\<lparr>config_file = (None :: (exn + unit) option), config_path = ''.agent/config.yml'',
          prompt_files = (\<lambda>name. Some ''Be careful.''),
          prompt_path = (\<lambda>name. ''.agent/prompts/'' @ name @ ''.md''),
          git_remote = Inr [], returncode = (\<lambda>k cmd. 0)\<rparr>"
  let ?B = "\<lparr>opt_provider = None, opt_print_only = False, opt_help = False,
          subcommand = Some ''batch'', sub_help = False,
          opt_issue = None, opt_pr = None, opt_issues = Some ''42,43''\<rparr>"
  have h1: "config_file ?E1 = None
    \<or> subcommand ?R = Some ''implement'' \<and> prompt_files ?E1 ''implement'' = None
    \<or> subcommand ?R = Some ''review'' \<and> prompt_files ?E1 ''review'' = None
    \<or> subcommand ?R = Some ''security-review'' \<and> prompt_files ?E1 ''security'' = None"
    by simp
  have h2: "config_file ?E2 = None
    \<or> subcommand ?B = Some ''implement'' \<and> prompt_files ?E2 ''implement'' = None
    \<or> subcommand ?B = Some ''review'' \<and> prompt_files ?E2 ''review'' = None
    \<or> subcommand ?B = Some ''security-review'' \<and> prompt_files ?E2 ''security'' = None"
    by simp
  have p1: "fst (parse_args ?R) = Inr \<lparr>provider = ''claude-code'', print_only = False,
      command = ''review'', issue = None, pr = Some 42, issues = None\<rparr>"
    by (simp add: parse_args_def py_int_def int_space_def is_digit_def digits_value_def
        digit_val_def int_max_str_digits_def)
  have p2: "fst (parse_args ?B) = Inr \<lparr>provider = ''claude-code'', print_only = False,
      command = ''batch'', issue = None, pr = None, issues = Some ''42,43''\<rparr>"
    by (simp add: parse_args_def)
  show ?thesis
    using missing_file_stops_run [OF h1] missing_file_stops_run [OF h2]
    unfolding p1 p2 by simp
qed

text \<open>
  The claim as the specification words it fails for \<^verbatim>\<open>implement --issue 42\<close> when
  \<^verbatim>\<open>implement.md\<close> is missing: before the run stops on the missing template it has
  started a child process, the \<^verbatim>\<open>git\<close> lookup.
\<close>

theorem missing_file_counterexample:
  "prompt_files \<lparr>config_file = Some (Inr ()), config_path = ''.agent/config.yml'',
          prompt_files = (\<lambda>name. None),
          prompt_path = (\<lambda>name. ''.agent/prompts/'' @ name @ ''.md''),
          git_remote = Inr (''git@github.com:acme/shop.git'' @ nl),
          returncode = (\<lambda>k cmd. 0)\<rparr> ''implement'' = None
   \<and> main \<lparr>config_file = Some (Inr ()), config_path = ''.agent/config.yml'',
          prompt_files = (\<lambda>name. None),
          prompt_path = (\<lambda>name. ''.agent/prompts/'' @ name @ ''.md''),
          git_remote = Inr (''git@github.com:acme/shop.git'' @ nl),
          returncode = (\<lambda>k cmd. 0)\<rparr>
        \<lparr>opt_provider = None, opt_print_only = False, opt_help = False,
          subcommand = Some ''implement'', sub_help = False,
          opt_issue = Some ''42'', opt_pr = None, opt_issues = None\<rparr>
     = (SysExit 1,
        [Run [''git'', ''remote'', ''get-url'', ''origin''],
         Print ''Prompt not found: .agent/prompts/implement.md''])"
proof -
  have i42: "py_int ''42'' = Inr 42"
    by (simp add: py_int_def int_space_def is_digit_def digits_value_def digit_val_def
        int_max_str_digits_def)
  show ?thesis
    by (simp add: main_def parse_args_def i42 dispatch_def load_config_def commands_def
        cmd_implement_def get_repo_info_def load_prompt_def git_cmd_def split: prod.splits)
qed

subsection \<open>What the prompt depends on\<close>

lemma agent_prompts_append: "agent_prompts (tr @ tr') = agent_prompts tr @ agent_prompts tr'"
  by (simp add: agent_prompts_def)

text \<open>The prompts of each handler, from what the handler reads.\<close>

lemma cmd_implement_prompts:
  "agent_prompts (snd (cmd_implement env a c)) =
     (case issue a of
        None \<Rightarrow> []
      | Some n \<Rightarrow>
          (case prompt_files env ''implement'' of
             None \<Rightarrow> []
           | Some base \<Rightarrow>
               [implement_prompt (issue_ref_of (fst (fst (get_repo_info env))) n) n base]))"
  by (simp add: cmd_implement_def get_repo_info_def load_prompt_def run_claude_code_def
      agent_prompts_def git_cmd_def Let_def split: option.splits prod.splits sum.splits)

lemma cmd_review_prompts:
  "agent_prompts (snd (cmd_review env a c)) =
     (case prompt_files env ''review'' of
        None \<Rightarrow> []
      | Some t \<Rightarrow> (case pr a of None \<Rightarrow> [] | Some n \<Rightarrow> [review_prompt n t]))"
  by (simp add: cmd_review_def load_prompt_def run_claude_code_def
      agent_prompts_def Let_def split: option.splits prod.splits sum.splits)

lemma cmd_security_review_prompts:
  "agent_prompts (snd (cmd_security_review env a c)) =
     (case prompt_files env ''security'' of
        None \<Rightarrow> []
      | Some t \<Rightarrow> (case pr a of None \<Rightarrow> [] | Some n \<Rightarrow> [security_prompt n t]))"
  by (simp add: cmd_security_review_def load_prompt_def run_claude_code_def
      agent_prompts_def Let_def split: option.splits prod.splits sum.splits)

lemma cmd_batch_prompts:
  "agent_prompts (snd (cmd_batch env a c)) =
     (case issues a of
        None \<Rightarrow> []
      | Some s \<Rightarrow>
          (case parse_issues (split_from '','' [] s) of
             Inl e \<Rightarrow> []
           | Inr ns \<Rightarrow> map batch_prompt ns))"
proof (cases "issues a")
  case None
  then show ?thesis
    by (simp add: cmd_batch_def agent_prompts_def)
next
  case (Some s)
  have sp: "py_split '','' s = Inr (split_from '','' [] s)"
    by (simp add: py_split_def)
  show ?thesis
  proof (cases "parse_issues (split_from '','' [] s)")
    case (Inl e)
    then show ?thesis
      using Some by (simp add: cmd_batch_def py_split_def agent_prompts_def)
  next
    case (Inr ns)
    have st: "agent_prompts (concat (map (\<lambda>(k, n). [Print (f k n), Popen k [x, y, g n]]) xs))
        = map (\<lambda>(k, n). g n) xs"
      for f :: "nat \<Rightarrow> int \<Rightarrow> string" and g x y xs
      by (induction xs) (auto simp: agent_prompts_def)
    have wt: "agent_prompts (concat (map (\<lambda>(k, n). [Wait k, Print (f k n)]) xs)) = []"
      for f :: "nat \<Rightarrow> int \<Rightarrow> string" and xs
      by (induction xs) (auto simp: agent_prompts_def)
    have pr: "agent_prompts [Print x] = []" for x
      by (simp add: agent_prompts_def)
    have "map (\<lambda>(k, n). batch_prompt n) (enumerate 0 ns) = map batch_prompt ns"
      by (simp add: enumerate_eq_zip case_prod_unfold flip: map_map [of batch_prompt snd, unfolded comp_def])
    then show ?thesis
      unfolding cmd_batch_trace [OF Some sp Inr] snd_conv agent_prompts_append st wt pr
      using Some Inr by simp
  qed
qed

lemma issue_ref_truthy: "truthy o1 = truthy o2 \<Longrightarrow> issue_ref_of o1 n = issue_ref_of o2 n"
  by (simp add: issue_ref_of_def)

lemma dispatch_prompts:
  "agent_prompts (snd (dispatch env a)) =
     (case config_file env of
        None \<Rightarrow> []
      | Some (Inl e) \<Rightarrow> []
      | Some (Inr c) \<Rightarrow>
          if provider a \<noteq> ''claude-code'' then []
          else if command a = ''implement'' then agent_prompts (snd (cmd_implement env a c))
          else if command a = ''review'' then agent_prompts (snd (cmd_review env a c))
          else if command a = ''security-review''
            then agent_prompts (snd (cmd_security_review env a c))
          else if command a = ''batch'' then agent_prompts (snd (cmd_batch env a c))
          else [])"
proof (cases "config_file env")
  case None
  then show ?thesis
    by (simp add: dispatch_def load_config_def agent_prompts_def)
next
  case (Some loaded)
  show ?thesis
  proof (cases loaded)
    case (Inl e)
    with Some show ?thesis
      by (simp add: dispatch_def load_config_def agent_prompts_def)
  next
    case (Inr c)
    note cf = Some [unfolded Inr]
    show ?thesis
    proof (cases "provider a = ''claude-code''")
      case False
      then show ?thesis
        using cf
        by (simp add: dispatch_def load_config_def agent_prompts_def provider_message_def)
    next
      case True
      show ?thesis
        using cf True
        by (cases "command a" rule: command_cases)
          (simp_all add: dispatch_def load_config_def commands_def agent_prompts_def
            split: prod.splits sum.splits)
    qed
  qed
qed

lemma main_prompts:
  "agent_prompts (snd (main env cl)) =
     (case fst (parse_args cl) of
        Inl stop \<Rightarrow> []
      | Inr a \<Rightarrow> agent_prompts (snd (dispatch env a)))"
proof -
  obtain r0 ev where p: "parse_args cl = (r0, ev)"
    by (cases "parse_args cl")
  show ?thesis
  proof (cases r0)
    case (Inl stop)
    with p parse_args_rejected [of cl stop ev] show ?thesis
      by (auto simp: main_def agent_prompts_def)
  next
    case (Inr a)
    with p parse_args_accepts [of cl a ev] show ?thesis
      by (simp add: main_def split: prod.splits)
  qed
qed

text \<open>
  C3, as the code has it. The prompts a handler hands to the agent are a function of
  the template text, of the parameters of the command line and, for \<^verbatim>\<open>implement\<close>,
  of one more input: whether the lookup of the remote found an owner. Two runs that
  agree on these compose the same prompts, whatever else differs between their
  environments (configuration values, return codes, paths, the rest of the output of
  \<^verbatim>\<open>git\<close>); \<^verbatim>\<open>batch\<close> reads no template at all. For whole runs of the program
  the two environments must also agree on whether the configuration file exists and
  loads.
\<close>

theorem prompt_function_of_inputs:
  "(prompt_files env1 ''implement'' = prompt_files env2 ''implement''
      \<and> truthy (fst (fst (get_repo_info env1))) = truthy (fst (fst (get_repo_info env2)))
      \<longrightarrow> agent_prompts (snd (cmd_implement env1 a c1))
          = agent_prompts (snd (cmd_implement env2 a c2)))
   \<and> (prompt_files env1 ''review'' = prompt_files env2 ''review''
      \<longrightarrow> agent_prompts (snd (cmd_review env1 a c1)) = agent_prompts (snd (cmd_review env2 a c2)))
   \<and> (prompt_files env1 ''security'' = prompt_files env2 ''security''
      \<longrightarrow> agent_prompts (snd (cmd_security_review env1 a c1))
          = agent_prompts (snd (cmd_security_review env2 a c2)))
   \<and> agent_prompts (snd (cmd_batch env1 a c1)) = agent_prompts (snd (cmd_batch env2 a c2))
   \<and> (prompt_files env1 = prompt_files env2
      \<and> truthy (fst (fst (get_repo_info env1))) = truthy (fst (fst (get_repo_info env2)))
      \<and> (\<exists>c. config_file env1 = Some (Inr c)) = (\<exists>c. config_file env2 = Some (Inr c))
      \<longrightarrow> agent_prompts (snd (main env1 cl)) = agent_prompts (snd (main env2 cl)))"
proof (intro conjI impI)
  assume h: "prompt_files env1 ''implement'' = prompt_files env2 ''implement''
    \<and> truthy (fst (fst (get_repo_info env1))) = truthy (fst (fst (get_repo_info env2)))"
  then have "issue_ref_of (fst (fst (get_repo_info env1))) n
      = issue_ref_of (fst (fst (get_repo_info env2))) n" for n
    by (intro issue_ref_truthy) simp
  with h show "agent_prompts (snd (cmd_implement env1 a c1))
      = agent_prompts (snd (cmd_implement env2 a c2))"
    by (simp add: cmd_implement_prompts split: option.splits)
next
  assume "prompt_files env1 ''review'' = prompt_files env2 ''review''"
  then show "agent_prompts (snd (cmd_review env1 a c1)) = agent_prompts (snd (cmd_review env2 a c2))"
    by (simp add: cmd_review_prompts)
next
  assume "prompt_files env1 ''security'' = prompt_files env2 ''security''"
  then show "agent_prompts (snd (cmd_security_review env1 a c1))
      = agent_prompts (snd (cmd_security_review env2 a c2))"
    by (simp add: cmd_security_review_prompts)
next
  show "agent_prompts (snd (cmd_batch env1 a c1)) = agent_prompts (snd (cmd_batch env2 a c2))"
    by (simp add: cmd_batch_prompts)
next
  assume h: "prompt_files env1 = prompt_files env2
    \<and> truthy (fst (fst (get_repo_info env1))) = truthy (fst (fst (get_repo_info env2)))
    \<and> (\<exists>c. config_file env1 = Some (Inr c)) = (\<exists>c. config_file env2 = Some (Inr c))"
  then have r: "issue_ref_of (fst (fst (get_repo_info env1))) n
      = issue_ref_of (fst (fst (get_repo_info env2))) n" for n
    by (intro issue_ref_truthy) simp
  have "agent_prompts (snd (dispatch env1 b)) = agent_prompts (snd (dispatch env2 b))" for b
  proof (cases "\<exists>c. config_file env1 = Some (Inr c)")
    case False
    with h have "\<not> (\<exists>c. config_file env2 = Some (Inr c))"
      by simp
    with False show ?thesis
      by (auto simp: dispatch_prompts split: option.splits sum.splits)
  next
    case True
    then obtain x where Some: "config_file env1 = Some (Inr x)"
      by blast
    with h obtain y where y: "config_file env2 = Some (Inr y)"
      by auto
    have "agent_prompts (snd (cmd_implement env1 b x)) = agent_prompts (snd (cmd_implement env2 b y))"
      using h r by (simp add: cmd_implement_prompts split: option.splits)
    moreover have "agent_prompts (snd (cmd_review env1 b x)) = agent_prompts (snd (cmd_review env2 b y))"
      using h by (simp add: cmd_review_prompts)
    moreover have "agent_prompts (snd (cmd_security_review env1 b x))
        = agent_prompts (snd (cmd_security_review env2 b y))"
      using h by (simp add: cmd_security_review_prompts)
    moreover have "agent_prompts (snd (cmd_batch env1 b x)) = agent_prompts (snd (cmd_batch env2 b y))"
      by (simp add: cmd_batch_prompts)
    ultimately show ?thesis
      using Some y by (simp add: dispatch_prompts)
  qed
  then show "agent_prompts (snd (main env1 cl)) = agent_prompts (snd (main env2 cl))"
    by (simp add: main_prompts split: sum.splits)
qed

theorem prompt_function_of_inputs_witness:
  "agent_prompts (snd (cmd_implement
        \<lparr>config_file = Some (Inr True), config_path = ''.agent/config.yml'',
          prompt_files = (\<lambda>name. Some ''Task: {task_description}''),
          prompt_path = (\<lambda>name. name),
          git_remote = Inr [], returncode = (\<lambda>k cmd. 0)\<rparr>
        \<lparr>provider = ''claude-code'', print_only = False, command = ''implement'',
          issue = Some 42, pr = None, issues = None\<rparr> True))
   = agent_prompts (snd (cmd_implement
        \<lparr>config_file = Some (Inr False), config_path = ''/srv/.agent/config.yml'',
          prompt_files = (\<lambda>name. Some ''Task: {task_description}''),
          prompt_path = (\<lambda>name. ''/srv/'' @ name),
          git_remote = Inl OSError, returncode = (\<lambda>k cmd. 1)\<rparr>
        \<lparr>provider = ''claude-code'', print_only = False, command = ''implement'',
          issue = Some 42, pr = None, issues = None\<rparr> False))
   \<and> agent_prompts (snd (cmd_implement
        \<lparr>config_file = Some (Inr True), config_path = ''.agent/config.yml'',
          prompt_files = (\<lambda>name. Some ''Task: {task_description}''),
          prompt_path = (\<lambda>name. name),
          git_remote = Inr [], returncode = (\<lambda>k cmd. 0)\<rparr>
        \<lparr>provider = ''claude-code'', print_only = False, command = ''implement'',
          issue = Some 42, pr = None, issues = None\<rparr> True))
   = [implement_prompt (''issue '' @ py_str 42) 42 ''Task: {task_description}'']"
proof -
  let ?E1 = "\<lparr>config_file = Some (Inr True), config_path = ''.agent/config.yml'',
          prompt_files = (\<lambda>name. Some ''Task: {task_description}''),
          prompt_path = (\<lambda>name. name),
          git_remote = Inr [], returncode = (\<lambda>k cmd. 0)\<rparr>"
  let ?E2 = "\<lparr>config_file = Some (Inr False), config_path = ''/srv/.agent/config.yml'',
          prompt_files = (\<lambda>name. Some ''Task: {task_description}''),
          prompt_path = (\<lambda>name. ''/srv/'' @ name),
          git_remote = Inl OSError, returncode = (\<lambda>k cmd. 1)\<rparr>"
  let ?A = "\<lparr>provider = ''claude-code'', print_only = False, command = ''implement'',
          issue = Some 42, pr = None, issues = None\<rparr>"
  have g1: "fst (fst (get_repo_info ?E1)) = None"
    by (simp add: get_repo_info_def repo_info_try_def py_strip_def)
  have g2: "fst (fst (get_repo_info ?E2)) = None"
    by (simp add: get_repo_info_def repo_info_try_def)
  have h: "prompt_files ?E1 ''implement'' = prompt_files ?E2 ''implement''
      \<and> truthy (fst (fst (get_repo_info ?E1))) = truthy (fst (fst (get_repo_info ?E2)))"
    unfolding g1 g2 by simp
  have e: "agent_prompts (snd (cmd_implement ?E1 ?A True))
      = [implement_prompt (''issue '' @ py_str 42) 42 ''Task: {task_description}'']"
    unfolding cmd_implement_prompts g1 by (simp add: issue_ref_of_def truthy_def)
  from prompt_function_of_inputs [of ?E1 ?E2 ?A True False] h
  have "agent_prompts (snd (cmd_implement ?E1 ?A True))
      = agent_prompts (snd (cmd_implement ?E2 ?A False))"
    by blast
  with e show ?thesis
    by simp
qed

text \<open>
  The claim as the specification words it fails for \<^verbatim>\<open>implement\<close>: the same
  template and the same issue number give two different prompts in a clone of a
  GitHub repository and in a directory without a remote.
\<close>

theorem prompt_purity_counterexample:
  "prompt_files \<lparr>config_file = Some (Inr ()), config_path = ''.agent/config.yml'',
          prompt_files = (\<lambda>name. Some ''Task: {task_description}''),
          prompt_path = (\<lambda>name. name),
          git_remote = Inr (''git@github.com:acme/shop.git'' @ nl),
          returncode = (\<lambda>k cmd. 0)\<rparr>
   = prompt_files \<lparr>config_file = Some (Inr ()), config_path = ''.agent/config.yml'',
          prompt_files = (\<lambda>name. Some ''Task: {task_description}''),
          prompt_path = (\<lambda>name. name),
          git_remote = Inr [],
          returncode = (\<lambda>k cmd. 0)\<rparr>
   \<and> agent_prompts (snd (cmd_implement
        \<lparr>config_file = Some (Inr ()), config_path = ''.agent/config.yml'',
          prompt_files = (\<lambda>name. Some ''Task: {task_description}''),
          prompt_path = (\<lambda>name. name),
          git_remote = Inr (''git@github.com:acme/shop.git'' @ nl),
          returncode = (\<lambda>k cmd. 0)\<rparr>
        \<lparr>provider = ''claude-code'', print_only = False, command = ''implement'',
          issue = Some 42, pr = None, issues = None\<rparr> ()))
     = [implement_prompt ''#42'' 42 ''Task: {task_description}'']
   \<and> agent_prompts (snd (cmd_implement
        \<lparr>config_file = Some (Inr ()), config_path = ''.agent/config.yml'',
          prompt_files = (\<lambda>name. Some ''Task: {task_description}''),
          prompt_path = (\<lambda>name. name),
          git_remote = Inr [],
          returncode = (\<lambda>k cmd. 0)\<rparr>
        \<lparr>provider = ''claude-code'', print_only = False, command = ''implement'',
          issue = Some 42, pr = None, issues = None\<rparr> ()))
     = [implement_prompt ''issue 42'' 42 ''Task: {task_description}'']
   \<and> implement_prompt ''#42'' 42 ''Task: {task_description}''
     \<noteq> implement_prompt ''issue 42'' 42 ''Task: {task_description}''"
proof -
  have s: "py_str 42 = ''42''"
    by (simp add: py_str_def nat_digits.simps digit_char_def)
  have g1: "fst (fst (get_repo_info \<lparr>config_file = Some (Inr ()), config_path = ''.agent/config.yml'',
          prompt_files = (\<lambda>name. Some ''Task: {task_description}''),
          prompt_path = (\<lambda>name. name),
          git_remote = Inr (''git@github.com:acme/shop.git'' @ nl),
          returncode = (\<lambda>k cmd. 0)\<rparr>)) = Some ''acme''"
    by (simp add: get_repo_info_def repo_info_try_def nl_def py_strip_def py_isspace_def
        py_split_def py_index_def py_replace_def)
  have g2: "fst (fst (get_repo_info \<lparr>config_file = Some (Inr ()), config_path = ''.agent/config.yml'',
          prompt_files = (\<lambda>name. Some ''Task: {task_description}''),
          prompt_path = (\<lambda>name. name),
          git_remote = Inr [],
          returncode = (\<lambda>k cmd. 0)\<rparr>)) = None"
    by (simp add: get_repo_info_def repo_info_try_def py_strip_def)
  have d: "implement_prompt ''#42'' 42 ''Task: {task_description}''
     \<noteq> implement_prompt ''issue 42'' 42 ''Task: {task_description}''"
    by (simp add: implement_prompt_def)
  show ?thesis
    unfolding cmd_implement_prompts g1 g2
    using d by (simp add: issue_ref_of_def truthy_def s)
qed

subsection \<open>The two forms of a GitHub remote\<close>

lemma py_strip_trailing:
  assumes "s \<noteq> []" and "\<not> py_isspace (hd s)" and "\<not> py_isspace (last s)"
    and "list_all py_isspace w"
  shows "py_strip (s @ w) = s"
proof -
  have front: "dropWhile py_isspace (s @ w) = s @ w"
    using assms(1,2) by (cases s) simp_all
  have "dropWhile py_isspace (rev w @ rev s) = dropWhile py_isspace (rev s)"
    using assms(4) by (intro dropWhile_append2) (simp add: list_all_iff)
  also have "\<dots> = rev s"
    using assms(1,3) by (simp add: dropWhile_eq_self_iff hd_rev)
  finally show ?thesis
    by (simp add: py_strip_def front)
qed

text \<open>Splitting on one character.\<close>

lemma split_char_absent:
  "c \<notin> set s \<Longrightarrow> split_from [c] acc s = [rev acc @ s]"
  by (induction s arbitrary: acc) auto

lemma split_char_first:
  "c \<notin> set a \<Longrightarrow> split_from [c] acc (a @ c # r) = (rev acc @ a) # split_from [c] [] r"
  by (induction a arbitrary: acc) auto

text \<open>A separator with a character the text lacks does not occur in it.\<close>

lemma split_sep_absent:
  "c \<in> set sep \<Longrightarrow> c \<notin> set s \<Longrightarrow> split_from sep acc s = [rev acc @ s]"
proof (induction s arbitrary: acc)
  case Nil
  then show ?case by simp
next
  case (Cons x s)
  have "\<not> prefix sep (x # s)"
    using Cons.prems set_mono_prefix [of sep "x # s"] by auto
  with Cons show ?case
    by simp
qed

text \<open>
  \<^verbatim>\<open>github.com/\<close> does not occur in \<open>a/r\<close> when \<open>a\<close> has no period and
  neither part has a slash.
\<close>

lemma split_host_absent:
  assumes "CHR ''.'' \<notin> set a" and "CHR ''/'' \<notin> set a" and "CHR ''/'' \<notin> set r"
  shows "split_from ''github.com/'' acc (a @ CHR ''/'' # r) = [rev acc @ a @ CHR ''/'' # r]"
  using assms
proof (induction a arbitrary: acc)
  case Nil
  then show ?case
    using split_sep_absent [of "CHR ''/''" "''github.com/''" r "CHR ''/'' # acc"] by simp
next
  case (Cons x a)
  have "\<not> prefix ''github.com/'' ((x # a) @ CHR ''/'' # r)"
  proof
    assume "prefix ''github.com/'' ((x # a) @ CHR ''/'' # r)"
    then obtain u where eq: "(x # a) @ CHR ''/'' # r = ''github.com'' @ CHR ''/'' # u"
      by (auto simp: prefix_def)
    have n1: "CHR ''/'' \<notin> set (x # a)" and n2: "CHR ''/'' \<notin> set r"
      using Cons.prems by simp_all
    from eq have "x # a = ''github.com''"
      unfolding append_Cons_eq_iff [OF n1 n2] by (rule conjunct1)
    with Cons.prems(1) show False
      by auto
  qed
  with Cons show ?case
    by simp
qed

lemma replace_git_owner:
  "CHR ''.'' \<notin> set a \<Longrightarrow>
     replace_from ''.git'' new (a @ CHR ''/'' # r) = a @ CHR ''/'' # replace_from ''.git'' new r"
  by (induction a) auto

lemma set_replace_from_empty: "set (replace_from old [] s) \<subseteq> set s"
proof (induction old "[] :: string" s rule: replace_from.induct)
  case (1 old)
  then show ?case by simp
next
  case (2 old c cs)
  show ?case
  proof (cases "old \<noteq> [] \<and> prefix old (c # cs)")
    case True
    with 2 have "set (replace_from old [] (c # cs)) \<subseteq> set (drop (length old) (c # cs))"
      by simp
    also have "\<dots> \<subseteq> set (c # cs)"
      by (rule set_drop_subset)
    finally show ?thesis .
  next
    case False
    with 2 show ?thesis
      by auto
  qed
qed

text \<open>
  What the \<^verbatim>\<open>try\<close> block makes of the path \<open>owner/repo.git\<close>, once either form of
  the URL has been cut down to it.
\<close>

lemma path_to_pair:
  assumes "CHR ''/'' \<notin> set owner" and "CHR ''/'' \<notin> set repo" and "CHR ''.'' \<notin> set owner"
  shows "py_split ''/'' (py_replace ''.git'' [] (owner @ ''/'' @ repo @ ''.git''))
    = Inr [owner, py_replace ''.git'' [] (repo @ ''.git'')]"
proof -
  have "CHR ''/'' \<notin> set (replace_from ''.git'' [] (repo @ ''.git''))"
    using set_replace_from_empty [of "''.git''" "repo @ ''.git''"] assms(2) by auto
  then show ?thesis
    using assms(1,3)
    by (simp add: py_split_def py_replace_def replace_git_owner split_char_first split_char_absent)
qed

lemma repo_info_try_ssh:
  assumes "CHR '':'' \<notin> set owner \<union> set repo" and "CHR ''/'' \<notin> set owner \<union> set repo"
    and "CHR ''.'' \<notin> set owner" and "list_all py_isspace w"
  shows "repo_info_try (Inr (''git@github.com:'' @ owner @ ''/'' @ repo @ ''.git'' @ w))
    = Inr (Some (owner, py_replace ''.git'' [] (repo @ ''.git'')))"
proof -
  let ?path = "owner @ ''/'' @ repo @ ''.git''"
  let ?url = "''git@github.com:'' @ ?path"
  have strip: "py_strip (?url @ w) = ?url"
    using assms(4) by (intro py_strip_trailing) (simp_all add: py_isspace_def)
  have host: "py_in ''github.com'' ?url"
    by simp
  have "CHR '':'' \<notin> set ?path"
    using assms(1) by simp
  then have "split_from '':'' [] ?path = [rev [] @ ?path]"
    by (rule split_char_absent)
  moreover have "split_from '':'' [] (''git@github.com'' @ CHR '':'' # ?path)
      = (rev [] @ ''git@github.com'') # split_from '':'' [] ?path"
    by (rule split_char_first) simp
  ultimately have parts: "py_split '':'' ?url = Inr [''git@github.com'', ?path]"
    by (simp add: py_split_def)
  have pre: "prefix ''git@'' ?url"
    by simp
  show ?thesis
    using path_to_pair [of owner repo] assms(2,3)
    unfolding repo_info_try_def
    by (simp only: sum.case Let_def append_assoc strip [unfolded append_assoc] host pre parts
        if_True py_index_def) simp
qed

lemma repo_info_try_https:
  assumes "CHR ''/'' \<notin> set owner \<union> set repo" and "CHR ''.'' \<notin> set owner"
    and "list_all py_isspace w"
  shows "repo_info_try (Inr (''https://github.com/'' @ owner @ ''/'' @ repo @ ''.git'' @ w))
    = Inr (Some (owner, py_replace ''.git'' [] (repo @ ''.git'')))"
proof -
  let ?path = "owner @ ''/'' @ repo @ ''.git''"
  let ?url = "''https://github.com/'' @ ?path"
  have strip: "py_strip (?url @ w) = ?url"
    using assms(3) by (intro py_strip_trailing) (simp_all add: py_isspace_def)
  have host: "py_in ''github.com'' ?url"
    by simp
  have "split_from ''github.com/'' [] (owner @ CHR ''/'' # repo @ ''.git'')
      = [rev [] @ owner @ CHR ''/'' # repo @ ''.git'']"
    using assms(1,2) by (intro split_host_absent) simp_all
  moreover have "split_from ''github.com/'' [] ?url
      = ''https://'' # split_from ''github.com/'' [] (owner @ CHR ''/'' # repo @ ''.git'')"
    by simp
  ultimately have parts: "py_split ''github.com/'' ?url = Inr [''https://'', ?path]"
    by (simp add: py_split_def)
  have pre: "\<not> prefix ''git@'' ?url"
    by simp
  show ?thesis
    using path_to_pair [of owner repo] assms(1,2)
    unfolding repo_info_try_def
    by (simp only: sum.case Let_def append_assoc strip [unfolded append_assoc] host pre parts
        if_True if_False py_index_def) simp
qed

text \<open>
  C5. A GitHub account name is made of letters, digits and hyphens, a repository name
  of letters, digits, hyphens, underscores and periods: neither has a colon or a
  slash, and an account name has no period. For every such owner and repository, the
  SSH form and the HTTPS form of the remote, as \<^verbatim>\<open>git\<close> prints them (with any
  whitespace \<open>w\<close> after them, such as the newline), parse to the same pair. The pair
  is the owner and the repository name with its \<^verbatim>\<open>.git\<close> removed.
\<close>

theorem ssh_and_https_same_pair:
  assumes "CHR '':'' \<notin> set owner \<union> set repo" and "CHR ''/'' \<notin> set owner \<union> set repo"
    and "CHR ''.'' \<notin> set owner" and "list_all py_isspace w"
  shows "fst (get_repo_info
             (env\<lparr>git_remote := Inr (''git@github.com:'' @ owner @ ''/'' @ repo @ ''.git'' @ w)\<rparr>))
       = fst (get_repo_info
             (env\<lparr>git_remote := Inr (''https://github.com/'' @ owner @ ''/'' @ repo @ ''.git'' @ w)\<rparr>))
    \<and> fst (get_repo_info
             (env\<lparr>git_remote := Inr (''https://github.com/'' @ owner @ ''/'' @ repo @ ''.git'' @ w)\<rparr>))
       = (Some owner, Some (py_replace ''.git'' [] (repo @ ''.git'')))"
  using repo_info_try_ssh [OF assms] repo_info_try_https [OF assms(2,3,4)]
  by (simp add: get_repo_info_def)

theorem ssh_and_https_same_pair_witness:
  "fst (get_repo_info
         \<lparr>config_file = Some (Inr ()), config_path = ''.agent/config.yml'',
           prompt_files = (\<lambda>name. None), prompt_path = (\<lambda>name. name),
           git_remote = Inr (''git@github.com:acme/shop.git'' @ nl),
           returncode = (\<lambda>k cmd. 0)\<rparr>)
   = (Some ''acme'', Some ''shop'')
   \<and> fst (get_repo_info
         \<lparr>config_file = Some (Inr ()), config_path = ''.agent/config.yml'',
           prompt_files = (\<lambda>name. None), prompt_path = (\<lambda>name. name),
           git_remote = Inr (''https://github.com/acme/shop.git'' @ nl),
           returncode = (\<lambda>k cmd. 0)\<rparr>)
   = (Some ''acme'', Some ''shop'')"
proof -
  have a: "CHR '':'' \<notin> set ''acme'' \<union> set ''shop''" "CHR ''/'' \<notin> set ''acme'' \<union> set ''shop''"
    "CHR ''.'' \<notin> set ''acme''" "list_all py_isspace nl"
    by (simp_all add: nl_def py_isspace_def)
  have r: "py_replace ''.git'' [] (''shop'' @ ''.git'') = ''shop''"
    by (simp add: py_replace_def)
  from ssh_and_https_same_pair [OF a,
      of "\<lparr>config_file = Some (Inr ()), config_path = ''.agent/config.yml'',
           prompt_files = (\<lambda>name. None), prompt_path = (\<lambda>name. name),
           git_remote = Inr [], returncode = (\<lambda>k cmd. 0)\<rparr>"]
  show ?thesis
    unfolding r by simp
qed

end
